theory Spec2Isabelle
  imports Main
begin

section \<open>The mailing-list worker of 48ix/workers\<close>

text \<open>
  A shallow embedding of the mailing-list worker (the script whose header comment reads
  "This worker script is used to handle mailing list subscription requests"), and the
  properties of its subscription workflow and of its MailJet client.

  Conventions of the model.
  \<^item> A JavaScript string is the list of bytes of its UTF-8 encoding (\<open>string\<close>). Strings
    with unpaired surrogates have no such encoding and are outside the model.
  \<^item> A JavaScript value that the script reads from parsed JSON, from the query parameters
    or from its own object literals is a \<open>jsval\<close>. Numbers are integers.
  \<^item> An exception is a value of \<open>js_error\<close>; a computation that may throw returns
    \<open>js_error + 'a\<close>, with \<open>Inl\<close> for the exception.
  \<^item> \<open>await\<close> is sequential composition. The remote services are a function from the
    history of requests and the current request to the outcome of \<open>fetch\<close>.
  \<^item> The body of a request is kept as the value handed to \<open>JSON.stringify\<close>.
  \<^item> Console output is not modelled.
\<close>

subsection \<open>Values and exceptions\<close>

datatype jsval =
    Undefined
  | Null
  | Bool bool
  | Num int
  | Str string
  | Arr "jsval list"
  | Obj "(string \<times> jsval) list"

text \<open>
  The exceptions of the script: its own \<open>MailingListError\<close>, the plain \<open>Error\<close> of
  \<open>getRecipient\<close>, and the platform's exceptions. Each carries its \<open>message\<close>.
\<close>

datatype js_error =
    MailingListError string
  | Error string
  | TypeError string
  | SyntaxError string
  | URIError string
  | InvalidCharacterError string

fun message :: "js_error \<Rightarrow> string" where
  "message (MailingListError m) = m"
| "message (Error m) = m"
| "message (TypeError m) = m"
| "message (SyntaxError m) = m"
| "message (URIError m) = m"
| "message (InvalidCharacterError m) = m"

subsection \<open>The language: conversion to string, truthiness, property access, equality\<close>

definition digit_char :: "nat \<Rightarrow> char" where
  "digit_char n = char_of (48 + n)"

fun show_nat :: "nat \<Rightarrow> string" where
  "show_nat n = (if n < 10 then [digit_char n] else show_nat (n div 10) @ [digit_char (n mod 10)])"

declare show_nat.simps [simp del]

definition show_int :: "int \<Rightarrow> string" where
  "show_int i = (if i < 0 then CHR ''-'' # show_nat (nat (- i)) else show_nat (nat i))"

fun join :: "string \<Rightarrow> string list \<Rightarrow> string" where
  "join sep [] = []"
| "join sep [x] = x"
| "join sep (x # y # ys) = x @ sep @ join sep (y # ys)"

text \<open>
  \<open>toString\<close> is the conversion a template literal applies to \<open>${v}\<close>. An array is its
  elements joined by commas, where \<open>undefined\<close> and \<open>null\<close> elements are empty.
\<close>

fun toString :: "jsval \<Rightarrow> string" where
  "toString Undefined = ''undefined''"
| "toString Null = ''null''"
| "toString (Bool b) = (if b then ''true'' else ''false'')"
| "toString (Num i) = show_int i"
| "toString (Str s) = s"
| "toString (Arr xs) =
     join '','' (map (\<lambda>x. if x = Undefined \<or> x = Null then [] else toString x) xs)"
| "toString (Obj kvs) = ''[object Object]''"

fun truthy :: "jsval \<Rightarrow> bool" where
  "truthy Undefined = False"
| "truthy Null = False"
| "truthy (Bool b) = b"
| "truthy (Num i) = (i \<noteq> 0)"
| "truthy (Str s) = (s \<noteq> [])"
| "truthy (Arr xs) = True"
| "truthy (Obj kvs) = True"

text \<open>
  \<open>v.k\<close> for the property names the script reads (\<open>Data\<close>, \<open>ID\<close>, \<open>Name\<close>, ...): none of
  them is a property of a string, number, boolean or array, so only an object can hold
  one; reading a property of \<open>undefined\<close> or \<open>null\<close> throws, with V8's wording.
\<close>

definition cannot_read :: "jsval \<Rightarrow> string \<Rightarrow> js_error" where
  "cannot_read v k =
     TypeError (''Cannot read properties of '' @ toString v @ '' (reading '' @ [CHR 0x27] @ k @ [CHR 0x27] @ '')'')"

fun get_prop :: "jsval \<Rightarrow> string \<Rightarrow> js_error + jsval" where
  "get_prop Undefined k = Inl (cannot_read Undefined k)"
| "get_prop Null k = Inl (cannot_read Null k)"
| "get_prop (Obj kvs) k = Inr (case map_of kvs k of None \<Rightarrow> Undefined | Some v \<Rightarrow> v)"
| "get_prop v k = Inr Undefined"

text \<open>
  \<open>v[0]\<close>: the first element of an array (\<open>undefined\<close> when it is empty), the property
  \<open>"0"\<close> of an object, the first character of a string (the script only reads \<open>.ID\<close> of
  it, which is \<open>undefined\<close> for every string, so its first byte stands for it).
\<close>

fun index0 :: "jsval \<Rightarrow> js_error + jsval" where
  "index0 Undefined = Inl (cannot_read Undefined ''0'')"
| "index0 Null = Inl (cannot_read Null ''0'')"
| "index0 (Arr xs) = Inr (case xs of [] \<Rightarrow> Undefined | x # _ \<Rightarrow> x)"
| "index0 (Str s) = Inr (if s = [] then Undefined else Str (take 1 s))"
| "index0 (Obj kvs) = Inr (case map_of kvs ''0'' of None \<Rightarrow> Undefined | Some v \<Rightarrow> v)"
| "index0 v = Inr Undefined"

text \<open>
  \<open>a === b\<close>. Every object or array the script compares comes from parsing a different
  response, so two of them are never the same reference.
\<close>

fun strict_eq :: "jsval \<Rightarrow> jsval \<Rightarrow> bool" where
  "strict_eq (Arr xs) b = False"
| "strict_eq (Obj kvs) b = False"
| "strict_eq a b = (a = b)"

subsection \<open>The platform's string functions\<close>

text \<open>
  \<open>encodeURIComponent\<close> keeps the unreserved characters and writes every other byte of
  the UTF-8 encoding as \<open>%XX\<close> with upper-case hexadecimal digits; \<open>encodeURI\<close> also
  keeps the reserved characters and \<open>#\<close>.
\<close>

definition hex_char :: "nat \<Rightarrow> char" where
  "hex_char n = (if n < 10 then char_of (48 + n) else char_of (55 + n))"

definition pct :: "char \<Rightarrow> string" where
  "pct c = [CHR ''%'', hex_char (of_char c div 16), hex_char (of_char c mod 16)]"

definition alnum :: "char \<Rightarrow> bool" where
  "alnum c = (let n = of_char c :: nat in
     (48 \<le> n \<and> n \<le> 57) \<or> (65 \<le> n \<and> n \<le> 90) \<or> (97 \<le> n \<and> n \<le> 122))"

definition unreserved :: "char \<Rightarrow> bool" where
  "unreserved c = (alnum c \<or> c \<in> set (''-_.!~*'' @ [CHR 0x27] @ ''()''))"

definition reserved :: "char \<Rightarrow> bool" where
  "reserved c = (c \<in> set '';/?:@&=+$,#'')"

definition encodeURIComponent :: "string \<Rightarrow> string" where
  "encodeURIComponent s = concat (map (\<lambda>c. if unreserved c then [c] else pct c) s)"

definition encodeURI :: "string \<Rightarrow> string" where
  "encodeURI s = concat (map (\<lambda>c. if unreserved c \<or> reserved c then [c] else pct c) s)"

definition hex_val :: "char \<Rightarrow> nat option" where
  "hex_val c = (let n = of_char c :: nat in
     if 48 \<le> n \<and> n \<le> 57 then Some (n - 48)
     else if 65 \<le> n \<and> n \<le> 70 then Some (n - 55)
     else if 97 \<le> n \<and> n \<le> 102 then Some (n - 87)
     else None)"

text \<open>Percent-decoding: every \<open>%XX\<close> becomes the byte \<open>XX\<close>; a \<open>%\<close> without two
  hexadecimal digits is malformed.\<close>

fun percent_decode :: "string \<Rightarrow> string option" where
  "percent_decode [] = Some []"
| "percent_decode (c # cs) =
     (if c = CHR ''%'' then
        (case cs of
           h # l # rest \<Rightarrow>
             (case (hex_val h, hex_val l) of
                (Some a, Some b) \<Rightarrow> map_option ((#) (char_of (16 * a + b))) (percent_decode rest)
              | _ \<Rightarrow> None)
         | _ \<Rightarrow> None)
      else map_option ((#) c) (percent_decode cs))"

text \<open>Well-formed UTF-8 (no overlong forms, no surrogates, nothing above U+10FFFF).\<close>

definition cont :: "char \<Rightarrow> bool" where
  "cont c = (128 \<le> (of_char c :: nat) \<and> (of_char c :: nat) \<le> 191)"

definition second3 :: "nat \<Rightarrow> char \<Rightarrow> bool" where
  "second3 n b = (let m = of_char b :: nat in
     if n = 224 then 160 \<le> m \<and> m \<le> 191
     else if n = 237 then 128 \<le> m \<and> m \<le> 159
     else 128 \<le> m \<and> m \<le> 191)"

definition second4 :: "nat \<Rightarrow> char \<Rightarrow> bool" where
  "second4 n b = (let m = of_char b :: nat in
     if n = 240 then 144 \<le> m \<and> m \<le> 191
     else if n = 244 then 128 \<le> m \<and> m \<le> 143
     else 128 \<le> m \<and> m \<le> 191)"

fun utf8_valid :: "string \<Rightarrow> bool" where
  "utf8_valid [] = True"
| "utf8_valid (a # xs) =
     (let n = of_char a :: nat in
      if n < 128 then utf8_valid xs
      else if 194 \<le> n \<and> n \<le> 223 then
        (case xs of b # ys \<Rightarrow> cont b \<and> utf8_valid ys | _ \<Rightarrow> False)
      else if 224 \<le> n \<and> n \<le> 239 then
        (case xs of b # c # ys \<Rightarrow> second3 n b \<and> cont c \<and> utf8_valid ys | _ \<Rightarrow> False)
      else if 240 \<le> n \<and> n \<le> 244 then
        (case xs of b # c # d # ys \<Rightarrow> second4 n b \<and> cont c \<and> cont d \<and> utf8_valid ys | _ \<Rightarrow> False)
      else False)"

text \<open>
  \<open>decodeURIComponent\<close> throws a \<open>URIError\<close> on a malformed escape and on escapes that are
  not well-formed UTF-8.
\<close>

definition decodeURIComponent :: "string \<Rightarrow> js_error + string" where
  "decodeURIComponent s =
     (case percent_decode s of
        None \<Rightarrow> Inl (URIError ''URI malformed'')
      | Some bs \<Rightarrow> if utf8_valid bs then Inr bs else Inl (URIError ''URI malformed''))"

text \<open>
  Base64 with the standard alphabet and \<open>=\<close> padding. \<open>btoa\<close> takes a string whose
  characters are all below U+0100, one byte each, and throws on any other string.
\<close>

definition b64chr :: "nat \<Rightarrow> char" where
  "b64chr n =
     (if n < 26 then char_of (n + 65)
      else if n < 52 then char_of (n + 71)
      else if n < 62 then char_of (n - 4)
      else if n = 62 then CHR ''+'' else CHR ''/'')"

fun base64_encode :: "string \<Rightarrow> string" where
  "base64_encode [] = []"
| "base64_encode [a] =
     (let x = of_char a :: nat in
      [b64chr (x div 4), b64chr ((x mod 4) * 16), CHR ''='', CHR ''=''])"
| "base64_encode [a, b] =
     (let x = of_char a :: nat; y = of_char b :: nat in
      [b64chr (x div 4), b64chr ((x mod 4) * 16 + y div 16), b64chr ((y mod 16) * 4), CHR ''=''])"
| "base64_encode (a # b # c # rest) =
     (let x = of_char a :: nat; y = of_char b :: nat; z = of_char c :: nat in
      [b64chr (x div 4), b64chr ((x mod 4) * 16 + y div 16),
       b64chr ((y mod 16) * 4 + z div 64), b64chr (z mod 64)] @ base64_encode rest)"

fun latin1 :: "string \<Rightarrow> string option" where
  "latin1 [] = Some []"
| "latin1 (a # xs) =
     (let n = of_char a :: nat in
      if n < 128 then map_option ((#) a) (latin1 xs)
      else if n = 194 \<or> n = 195 then
        (case xs of
           b # ys \<Rightarrow>
             if cont b then map_option ((#) (char_of ((n - 192) * 64 + (of_char b - 128 :: nat)))) (latin1 ys)
             else None
         | [] \<Rightarrow> None)
      else None)"

definition btoa :: "string \<Rightarrow> js_error + string" where
  "btoa s =
     (case latin1 s of
        None \<Rightarrow> Inl (InvalidCharacterError ''Invalid character'')
      | Some bs \<Rightarrow> Inr (base64_encode bs))"

text \<open>The decoder used to read a redirect's payload back: the inverse of the alphabet, four
  characters at a time, with padding in the last group only.\<close>

definition b64val :: "char \<Rightarrow> nat option" where
  "b64val c = (let n = of_char c :: nat in
     if 65 \<le> n \<and> n \<le> 90 then Some (n - 65)
     else if 97 \<le> n \<and> n \<le> 122 then Some (n - 71)
     else if 48 \<le> n \<and> n \<le> 57 then Some (n + 4)
     else if c = CHR ''+'' then Some 62
     else if c = CHR ''/'' then Some 63
     else None)"

fun base64_decode :: "string \<Rightarrow> string option" where
  "base64_decode [] = Some []"
| "base64_decode (w # x # y # z # rest) =
     (case (b64val w, b64val x) of
        (Some p, Some q) \<Rightarrow>
          (if y = CHR ''='' \<and> z = CHR ''='' \<and> rest = [] then
             (if q mod 16 = 0 then Some [char_of (p * 4 + q div 16)] else None)
           else
             (case b64val y of
                None \<Rightarrow> None
              | Some r \<Rightarrow>
                  (if z = CHR ''='' \<and> rest = [] then
                     (if r mod 4 = 0
                      then Some [char_of (p * 4 + q div 16), char_of ((q mod 16) * 16 + r div 4)]
                      else None)
                   else
                     (case b64val z of
                        None \<Rightarrow> None
                      | Some t \<Rightarrow>
                          map_option
                            ((@) [char_of (p * 4 + q div 16), char_of ((q mod 16) * 16 + r div 4),
                                  char_of ((r mod 4) * 64 + t)])
                            (base64_decode rest)))))
      | _ \<Rightarrow> None)"
| "base64_decode _ = None"

text \<open>\<open>s.split(c)\<close> for a one-character separator: never empty, \<open>[""]\<close> for the empty string.\<close>

fun split_on :: "char \<Rightarrow> string \<Rightarrow> string list" where
  "split_on c [] = [] # []"
| "split_on c (x # xs) =
     (if x = c then [] # split_on c xs
      else (case split_on c xs of p # ps \<Rightarrow> (x # p) # ps | [] \<Rightarrow> [x] # []))"

subsection \<open>Requests, responses and the remote services\<close>

datatype http_method = GET | POST | PUT

record http_request =
  req_method :: http_method
  req_url :: string
  req_headers :: "(string \<times> string) list"
  req_body :: "jsval option"

text \<open>
  A \<open>Response\<close> of \<open>fetch\<close>: its status, its status text, and what \<open>response.json()\<close>
  and \<open>response.text()\<close> resolve to or reject with. \<open>response.ok\<close> is true exactly for
  the statuses 200 to 299.
\<close>

record response =
  status :: nat
  statusText :: string
  body_json :: "js_error + jsval"
  body_text :: "js_error + string"

definition ok :: "response \<Rightarrow> bool" where
  "ok r = (200 \<le> status r \<and> status r \<le> 299)"

text \<open>
  The globals the platform installs (\<open>MAILJET_USER\<close>, \<open>MAILJET_PASS\<close>,
  \<open>SLACK_WEBHOOK_URL\<close>) and the remote services: \<open>remote\<close> gives, for the requests sent so
  far and the request being sent, the response \<open>fetch\<close> resolves to or the exception it
  rejects with.
\<close>

record env =
  MAILJET_USER :: string
  MAILJET_PASS :: string
  SLACK_WEBHOOK_URL :: string
  remote :: "http_request list \<Rightarrow> http_request \<Rightarrow> js_error + response"

text \<open>
  The state of the worker: the \<open>Headers\<close> object of the module-level client \<open>Fetch\<close>, as
  the list of its entries in the order they were added, and the requests sent so far.
\<close>

record state =
  headers :: "(string \<times> string) list"
  calls :: "http_request list"

definition fetch :: "env \<Rightarrow> http_request \<Rightarrow> state \<Rightarrow> (js_error + response) \<times> state" where
  "fetch e req s = (remote e (calls s) req, s\<lparr>calls := calls s @ [req]\<rparr>)"

definition MJ_USER :: "env \<Rightarrow> jsval" where
  "MJ_USER e = (if MAILJET_USER e = [] then Null else Str (MAILJET_USER e))"

definition MJ_PASS :: "env \<Rightarrow> jsval" where
  "MJ_PASS e = (if MAILJET_PASS e = [] then Null else Str (MAILJET_PASS e))"

definition MJ_ADD_CONTACT :: string where
  "MJ_ADD_CONTACT = ''https://api.mailjet.com/v3/REST/listrecipient''"

definition MJ_CONTACT :: string where
  "MJ_CONTACT = ''https://api.mailjet.com/v3/REST/contact''"

definition MJ_CONTACTS_LIST :: string where
  "MJ_CONTACTS_LIST = ''https://api.mailjet.com/v3/REST/contactslist''"

definition MJ_TEMPLATE :: string where
  "MJ_TEMPLATE = ''https://api.mailjet.com/v3/REST/template''"

definition MJ_LIST_RECIPIENT :: string where
  "MJ_LIST_RECIPIENT = ''https://api.mailjet.com/v3/REST/listrecipient''"

definition MJ_SEND :: string where
  "MJ_SEND = ''https://api.mailjet.com/v3.1/send''"

definition SLACK_URL :: "env \<Rightarrow> string" where
  "SLACK_URL e = SLACK_WEBHOOK_URL e"

subsection \<open>Slack notification\<close>

definition makeMessage :: "jsval \<Rightarrow> jsval \<Rightarrow> jsval \<Rightarrow> jsval" where
  "makeMessage emailAddr listName errorMsg =
     (let title = toString emailAddr @ '' has subscribed to '' @ toString listName in
      Obj [(''attachments'',
        Arr [Obj ([(''fallback'', Str title),
                   (''color'', Str (if truthy errorMsg then ''#f25979'' else ''#f4dc87'')),
                   (''pretext'', Str ''New mailing list subscription''),
                   (''title'', Str title)]
                  @ (if truthy errorMsg
                     then [(''fields'', Arr [Obj [(''title'', Str ''Error''), (''value'', errorMsg),
                                                  (''short'', Bool False)]])]
                     else []))])])"

text \<open>\<open>notifySlack\<close> posts the message and catches whatever \<open>fetch\<close> throws; the workflow
  ignores what it returns.\<close>

definition notifySlack :: "env \<Rightarrow> jsval \<Rightarrow> jsval \<Rightarrow> jsval \<Rightarrow> state \<Rightarrow> state" where
  "notifySlack e emailAddr listName errorMsg s =
     snd (fetch e \<lparr>req_method = POST, req_url = SLACK_URL e,
                    req_headers = [(''Content-Type'', ''application/json'')],
                    req_body = Some (makeMessage emailAddr listName errorMsg)\<rparr> s)"

subsection \<open>The client\<close>

text \<open>The constructor of \<open>Client\<close>: the header object \<open>Fetch\<close> starts with.\<close>

definition Client :: "env \<Rightarrow> js_error + (string \<times> string) list" where
  "Client e =
     (case btoa (toString (MJ_USER e) @ '':'' @ toString (MJ_PASS e)) of
        Inl err \<Rightarrow> Inl err
      | Inr b \<Rightarrow> Inr [(''Authorization'', ''Basic '' @ b), (''Accept'', ''application/json'')])"

definition clientError :: "response \<Rightarrow> string" where
  "clientError response =
     (let detail = statusText response;
          detail =
            (case body_json response of
               Inl err \<Rightarrow> detail
             | Inr jsonResponse \<Rightarrow>
                 (case get_prop jsonResponse ''ErrorCode'' of
                    Inl err \<Rightarrow> detail
                  | Inr code \<Rightarrow>
                      (case get_prop jsonResponse ''ErrorMessage'' of
                         Inl err \<Rightarrow> detail
                       | Inr msg \<Rightarrow> toString code @ '': '' @ toString msg)));
          detail =
            (if detail = [] then (case body_text response of Inl err \<Rightarrow> detail | Inr t \<Rightarrow> t)
             else detail);
          detail = (if detail = [] then ''General Error'' else detail)
      in detail)"

definition Client_get :: "env \<Rightarrow> string \<Rightarrow> state \<Rightarrow> (js_error + response) \<times> state" where
  "Client_get e url s =
     (let encodedUrl = encodeURI url in
      case fetch e \<lparr>req_method = GET, req_url = encodedUrl, req_headers = headers s,
                     req_body = None\<rparr> s of
        (Inl err, s') \<Rightarrow> (Inl err, s')
      | (Inr response, s') \<Rightarrow>
          if \<not> ok response then (Inl (MailingListError (clientError response)), s')
          else (Inr response, s'))"

definition Client_post :: "env \<Rightarrow> string \<Rightarrow> jsval \<Rightarrow> state \<Rightarrow> (js_error + response) \<times> state" where
  "Client_post e url data s =
     (let s1 = s\<lparr>headers := headers s @ [(''Content-Type'', ''application/json'')]\<rparr> in
      case fetch e \<lparr>req_method = POST, req_url = url, req_headers = headers s1,
                     req_body = (if data \<noteq> Undefined then Some data else None)\<rparr> s1 of
        (Inl err, s') \<Rightarrow> (Inl err, s')
      | (Inr response, s') \<Rightarrow>
          if \<not> ok response then (Inl (MailingListError (clientError response)), s')
          else (Inr response, s'))"

definition Client_put :: "env \<Rightarrow> string \<Rightarrow> jsval \<Rightarrow> state \<Rightarrow> (js_error + response) \<times> state" where
  "Client_put e url data s =
     (let s1 = s\<lparr>headers := headers s @ [(''Content-Type'', ''application/json'')]\<rparr> in
      case fetch e \<lparr>req_method = PUT, req_url = url, req_headers = headers s1,
                     req_body = (if data \<noteq> Undefined then Some data else None)\<rparr> s1 of
        (Inl err, s') \<Rightarrow> (Inl err, s')
      | (Inr response, s') \<Rightarrow>
          if \<not> ok response then (Inl (MailingListError (clientError response)), s')
          else (Inr response, s'))"

text \<open>The requests the client sends: \<open>get\<close> with the headers as they are, \<open>post\<close> and
  \<open>put\<close> after one more \<open>Content-Type\<close> entry has been appended to them.\<close>

definition get_request :: "string \<Rightarrow> state \<Rightarrow> http_request" where
  "get_request url s =
     \<lparr>req_method = GET, req_url = encodeURI url, req_headers = headers s, req_body = None\<rparr>"

definition post_request :: "string \<Rightarrow> jsval \<Rightarrow> state \<Rightarrow> http_request" where
  "post_request url data s =
     \<lparr>req_method = POST, req_url = url,
      req_headers = headers s @ [(''Content-Type'', ''application/json'')],
      req_body = (if data \<noteq> Undefined then Some data else None)\<rparr>"

definition put_request :: "string \<Rightarrow> jsval \<Rightarrow> state \<Rightarrow> http_request" where
  "put_request url data s =
     \<lparr>req_method = PUT, req_url = url,
      req_headers = headers s @ [(''Content-Type'', ''application/json'')],
      req_body = (if data \<noteq> Undefined then Some data else None)\<rparr>"

subsection \<open>Queries and mutations on MailJet\<close>

text \<open>The objects the script builds from MailJet's answers.\<close>

record contact_list =
  list_id :: jsval
  list_name :: jsval
  subscribers :: jsval

record membership =
  member_list_id :: jsval
  subscribed :: bool

record template =
  template_id :: jsval
  template_name :: jsval

definition bind_err :: "js_error + 'a \<Rightarrow> ('a \<Rightarrow> js_error + 'b) \<Rightarrow> js_error + 'b" where
  "bind_err r f = (case r of Inl err \<Rightarrow> Inl err | Inr v \<Rightarrow> f v)"

text \<open>\<open>data.Data[0].ID\<close>\<close>

definition first_ID :: "jsval \<Rightarrow> js_error + jsval" where
  "first_ID data = bind_err (bind_err (get_prop data ''Data'') index0) (\<lambda>d. get_prop d ''ID'')"

text \<open>
  \<open>addContact\<close>: any exception is caught and leaves \<open>added\<close> false.
\<close>

definition addContact :: "env \<Rightarrow> jsval \<Rightarrow> state \<Rightarrow> bool \<times> state" where
  "addContact e emailAddr s =
     (case Client_post e MJ_CONTACT (Obj [(''Email'', emailAddr)]) s of
        (Inl err, s') \<Rightarrow> (False, s')
      | (Inr response, s') \<Rightarrow> (status response = 201, s'))"

text \<open>
  \<open>getAllContactLists\<close>: the callback of \<open>data.Data.map\<close> pushes one cleaned list per
  element; when it throws at an element, the lists pushed before it stay in
  \<open>contactLists\<close>, which the \<open>catch\<close> then returns.
\<close>

fun push_contactLists :: "jsval list \<Rightarrow> contact_list list" where
  "push_contactLists [] = []"
| "push_contactLists (l # ls) =
     (case (get_prop l ''ID'', get_prop l ''Name'', get_prop l ''SubscriberCount'') of
        (Inr i, Inr n, Inr c) \<Rightarrow>
          \<lparr>list_id = i, list_name = n, subscribers = c\<rparr> # push_contactLists ls
      | _ \<Rightarrow> [])"

definition getAllContactLists :: "env \<Rightarrow> state \<Rightarrow> contact_list list \<times> state" where
  "getAllContactLists e s =
     (case Client_get e MJ_CONTACTS_LIST s of
        (Inl err, s') \<Rightarrow> ([], s')
      | (Inr response, s') \<Rightarrow>
          (case bind_err (body_json response) (\<lambda>data. get_prop data ''Data'') of
             Inr (Arr ls) \<Rightarrow> (push_contactLists ls, s')
           | _ \<Rightarrow> ([], s')))"

fun push_contactDetails :: "jsval list \<Rightarrow> membership list" where
  "push_contactDetails [] = []"
| "push_contactDetails (l # ls) =
     (case (get_prop l ''ListID'', get_prop l ''IsUnsub'') of
        (Inr i, Inr u) \<Rightarrow>
          \<lparr>member_list_id = i, subscribed = \<not> truthy u\<rparr> # push_contactDetails ls
      | _ \<Rightarrow> [])"

definition getContactLists :: "env \<Rightarrow> jsval \<Rightarrow> state \<Rightarrow> membership list \<times> state" where
  "getContactLists e emailAddr s =
     (case Client_get e (MJ_CONTACT @ ''/'' @ toString emailAddr @ ''/getcontactslists'') s of
        (Inl err, s') \<Rightarrow> ([], s')
      | (Inr response, s') \<Rightarrow>
          (case bind_err (body_json response) (\<lambda>details. get_prop details ''Data'') of
             Inr (Arr ls) \<Rightarrow> (push_contactDetails ls, s')
           | _ \<Rightarrow> ([], s')))"

text \<open>
  \<open>addContactToList\<close> returns \<open>{ addedToList, contactId, error }\<close>. \<open>addedToList\<close> is set
  once the body has been read as JSON, before \<open>data.Data[0].ID\<close> is read.
\<close>

record attach_result =
  addedToList :: bool
  attached_contactId :: jsval
  attach_error :: "js_error option"

definition addContactToList :: "env \<Rightarrow> jsval \<Rightarrow> jsval \<Rightarrow> state \<Rightarrow> attach_result \<times> state" where
  "addContactToList e listId emailAddr s =
     (case Client_post e MJ_ADD_CONTACT
             (Obj [(''IsUnsubscribed'', Bool True), (''ContactAlt'', emailAddr), (''ListID'', listId)]) s of
        (Inl err, s') \<Rightarrow>
          (\<lparr>addedToList = False, attached_contactId = Num 0, attach_error = Some err\<rparr>, s')
      | (Inr response, s') \<Rightarrow>
          if ok response then
            (case body_json response of
               Inl err \<Rightarrow>
                 (\<lparr>addedToList = False, attached_contactId = Num 0, attach_error = Some err\<rparr>, s')
             | Inr data \<Rightarrow>
                 (case first_ID data of
                    Inl err \<Rightarrow>
                      (\<lparr>addedToList = True, attached_contactId = Num 0, attach_error = Some err\<rparr>, s')
                  | Inr i \<Rightarrow>
                      (\<lparr>addedToList = True, attached_contactId = i, attach_error = None\<rparr>, s')))
          else (\<lparr>addedToList = False, attached_contactId = Num 0, attach_error = None\<rparr>, s'))"

text \<open>\<open>getContact\<close> returns \<open>{ id, exists }\<close>; \<open>exists\<close> is set before the body is read.\<close>

definition getContact :: "env \<Rightarrow> jsval \<Rightarrow> state \<Rightarrow> (jsval \<times> bool) \<times> state" where
  "getContact e emailAddr s =
     (case Client_get e (MJ_CONTACT @ ''/'' @ toString emailAddr) s of
        (Inl err, s') \<Rightarrow> ((Num 0, False), s')
      | (Inr response, s') \<Rightarrow>
          if status response = 200 then
            (case bind_err (body_json response) first_ID of
               Inl err \<Rightarrow> ((Num 0, True), s')
             | Inr i \<Rightarrow> ((i, True), s'))
          else ((Num 0, False), s'))"

text \<open>
  \<open>getRecipient\<close>. \<open>filter_recipients\<close> is \<open>data.Data.filter(r => r.ContactID === contactId
  && r.ListID === listId)\<close>, which throws at the first element whose property cannot be
  read. \<open>getRecipient_try\<close> is the body of the \<open>try\<close> block after the response has
  arrived; \<open>getRecipient\<close> adds the \<open>catch\<close>, which logs the exception, after which the
  function ends without a \<open>return\<close>, that is, with \<open>undefined\<close>.
\<close>

fun filter_recipients :: "jsval \<Rightarrow> jsval \<Rightarrow> jsval list \<Rightarrow> js_error + jsval list" where
  "filter_recipients contactId listId [] = Inr []"
| "filter_recipients contactId listId (r # rs) =
     (case get_prop r ''ContactID'' of
        Inl err \<Rightarrow> Inl err
      | Inr c \<Rightarrow>
          (case (if strict_eq c contactId then get_prop r ''ListID'' else Inr Undefined) of
             Inl err \<Rightarrow> Inl err
           | Inr l \<Rightarrow>
               (case filter_recipients contactId listId rs of
                  Inl err \<Rightarrow> Inl err
                | Inr keep \<Rightarrow>
                    Inr (if strict_eq c contactId \<and> strict_eq l listId then r # keep else keep))))"

definition not_a_function :: "string \<Rightarrow> js_error" where
  "not_a_function f = TypeError (f @ '' is not a function'')"

definition getRecipient_try :: "jsval \<Rightarrow> jsval \<Rightarrow> response \<Rightarrow> js_error + jsval" where
  "getRecipient_try contactId listId response =
     (case body_json response of
        Inl err \<Rightarrow> Inl err
      | Inr data \<Rightarrow>
          (case get_prop data ''Data'' of
             Inl err \<Rightarrow> Inl err
           | Inr (Arr rs) \<Rightarrow>
               (case filter_recipients contactId listId rs of
                  Inl err \<Rightarrow> Inl err
                | Inr [] \<Rightarrow> Inl (Error ''Contact not found.'')
                | Inr (r # _) \<Rightarrow> get_prop r ''ID'')
           | Inr Undefined \<Rightarrow> Inl (cannot_read Undefined ''filter'')
           | Inr Null \<Rightarrow> Inl (cannot_read Null ''filter'')
           | Inr _ \<Rightarrow> Inl (not_a_function ''data.Data.filter'')))"

definition getRecipient :: "env \<Rightarrow> jsval \<Rightarrow> jsval \<Rightarrow> state \<Rightarrow> (js_error + jsval) \<times> state" where
  "getRecipient e contactId listId s =
     (case Client_get e MJ_LIST_RECIPIENT s of
        (Inl err, s') \<Rightarrow> (Inr Undefined, s')
      | (Inr response, s') \<Rightarrow>
          (case getRecipient_try contactId listId response of
             Inl err \<Rightarrow> (Inr Undefined, s')
           | Inr i \<Rightarrow> (Inr i, s')))"

text \<open>
  \<open>subscribeContact\<close> returns \<open>{ subscribed, error }\<close>. The call of \<open>getRecipient\<close> is
  outside the \<open>try\<close> block, the \<open>PUT\<close> inside it.
\<close>

record subscribe_result =
  is_subscribed :: bool
  subscribe_error :: "js_error option"

definition subscribeContact ::
  "env \<Rightarrow> jsval \<Rightarrow> jsval \<Rightarrow> state \<Rightarrow> (js_error + subscribe_result) \<times> state" where
  "subscribeContact e contactId listId s =
     (case getRecipient e contactId listId s of
        (Inl err, s1) \<Rightarrow> (Inl err, s1)
      | (Inr recipientId, s1) \<Rightarrow>
          (case Client_put e (MJ_LIST_RECIPIENT @ ''/'' @ toString recipientId)
                  (Obj [(''IsUnsubscribed'', Bool False)]) s1 of
             (Inl err, s2) \<Rightarrow> (Inr \<lparr>is_subscribed = False, subscribe_error = Some err\<rparr>, s2)
           | (Inr response, s2) \<Rightarrow>
               (Inr \<lparr>is_subscribed = (ok response \<or> status response = 304),
                     subscribe_error = None\<rparr>, s2)))"

text \<open>\<open>getTemplates\<close>: the array is assigned only when \<open>map\<close> has gone through every
  element.\<close>

fun clean_templates :: "jsval list \<Rightarrow> js_error + template list" where
  "clean_templates [] = Inr []"
| "clean_templates (t # ts) =
     (case (get_prop t ''ID'', get_prop t ''Name'') of
        (Inr i, Inr n) \<Rightarrow>
          (case clean_templates ts of
             Inl err \<Rightarrow> Inl err
           | Inr rest \<Rightarrow> Inr (\<lparr>template_id = i, template_name = n\<rparr> # rest))
      | (Inl err, _) \<Rightarrow> Inl err
      | (_, Inl err) \<Rightarrow> Inl err)"

definition getTemplates :: "env \<Rightarrow> state \<Rightarrow> template list \<times> state" where
  "getTemplates e s =
     (case Client_get e MJ_TEMPLATE s of
        (Inl err, s') \<Rightarrow> ([], s')
      | (Inr response, s') \<Rightarrow>
          if status response = 200 then
            (case bind_err (body_json response) (\<lambda>data. get_prop data ''Data'') of
               Inr (Arr ts) \<Rightarrow> (case clean_templates ts of Inl err \<Rightarrow> ([], s') | Inr templates \<Rightarrow> (templates, s'))
             | _ \<Rightarrow> ([], s'))
          else ([], s'))"

text \<open>\<open>sendEmail\<close> returns \<open>{ sentEmail, error }\<close>, where \<open>error\<close> is the message of the
  exception caught.\<close>

definition sendEmail ::
  "env \<Rightarrow> jsval \<Rightarrow> jsval \<Rightarrow> jsval \<Rightarrow> state \<Rightarrow> (bool \<times> string option) \<times> state" where
  "sendEmail e emailAddr templateId listName s =
     (case Client_post e MJ_SEND
             (Obj [(''Messages'',
                Arr [Obj [(''From'', Obj [(''Email'', Str (toString listName @ ''@48ix.net'')),
                                          (''Name'', Str ''48 IX'')]),
                          (''To'', Arr [Obj [(''Email'', emailAddr)]]),
                          (''Subject'', Str (''Confirm your subscription to '' @ toString listName
                                             @ '' mailing list'')),
                          (''TemplateID'', templateId),
                          (''TemplateLanguage'', Bool True),
                          (''Variables'', Obj [(''LIST_NAME'', listName)])]])]) s of
        (Inl err, s') \<Rightarrow> ((False, Some (message err)), s')
      | (Inr response, s') \<Rightarrow> ((ok response, None), s'))"

subsection \<open>The query parameters\<close>

text \<open>
  \<open>parseUrl\<close> is given by the search component of the request's URL (\<open>new URL(url).search\<close>,
  empty or starting with \<open>?\<close>; the URL of a request the platform hands to the worker always
  parses). \<open>parse_items\<close> is the \<open>forEach\<close> over the items: a \<open>URIError\<close> of
  \<open>decodeURIComponent\<close> ends it, and the \<open>catch\<close> returns the parameters set before. An
  assignment to the key \<open>__proto__\<close> of a string or of \<open>true\<close> changes nothing.
\<close>

fun parse_items :: "string list \<Rightarrow> (string \<rightharpoonup> jsval) \<Rightarrow> (string \<rightharpoonup> jsval)" where
  "parse_items [] params = params"
| "parse_items (item # items) params =
     (case decodeURIComponent item of
        Inl err \<Rightarrow> params
      | Inr decodedItem \<Rightarrow>
          (case split_on CHR ''='' decodedItem of
             [] \<Rightarrow> parse_items items params
           | k # rest \<Rightarrow>
               (let v = (case rest of [] \<Rightarrow> Bool True
                         | v1 # _ \<Rightarrow> if v1 = [] then Bool True else Str v1) in
                if k \<noteq> [] \<and> k \<noteq> ''__proto__'' then parse_items items (params(k \<mapsto> v))
                else parse_items items params)))"

definition parseUrl :: "string \<Rightarrow> (string \<rightharpoonup> jsval)" where
  "parseUrl search = parse_items (split_on CHR ''&'' (drop 1 search)) Map.empty"

definition param :: "(string \<rightharpoonup> jsval) \<Rightarrow> string \<Rightarrow> jsval" where
  "param params k = (case params k of None \<Rightarrow> Undefined | Some v \<Rightarrow> v)"

subsection \<open>The request handler\<close>

text \<open>
  What the handler answers: a JSON body \<open>{ message }\<close> with a status and, where the script
  passes them, its \<open>Content-Type\<close> headers; or a redirect.
\<close>

datatype worker_response =
    JsonResponse string nat "(string \<times> string) list option"
  | Redirect string nat

datatype 'a outcome = Throws js_error | Returns worker_response | Continues 'a

record flags =
  onList :: bool
  alreadySubscribed :: bool
  contactExists :: bool
  contactId :: jsval
  listDetails :: "contact_list option"
  emailTemplate :: template

definition json_headers :: "(string \<times> string) list" where
  "json_headers = [(''Content-Type'', ''application/json'')]"

text \<open>
  The check of the required parameters: \<open>[action, emailAddr, listName].map(i => ...)\<close>
  builds an array that holds a response for every \<open>undefined\<close> parameter. The \<open>return\<close>
  in it is the callback's; the handler does not use the array.
\<close>

definition required_check :: "jsval list \<Rightarrow> worker_response option list" where
  "required_check ps =
     map (\<lambda>i. if i = Undefined
               then Some (JsonResponse ''Unable to parse request.'' 500 (Some json_headers))
               else None) ps"

text \<open>\<open>contactLists.filter(l => listDetails.id === l.id)\<close>: the callback reads
  \<open>listDetails.id\<close> at each element, so it throws on a non-empty array when \<open>listDetails\<close>
  is \<open>undefined\<close>.\<close>

definition filter_memberships ::
  "contact_list option \<Rightarrow> membership list \<Rightarrow> js_error + membership list" where
  "filter_memberships ld contactLists =
     (if contactLists = [] then Inr []
      else (case ld of
              None \<Rightarrow> Inl (cannot_read Undefined ''id'')
            | Some l \<Rightarrow> Inr (filter (\<lambda>m. strict_eq (list_id l) (member_list_id m)) contactLists)))"

text \<open>
  \<open>resolveState\<close> is the part of \<open>handleRequest\<close> from "Declare \<open>&\<close> define default state
  variables" to the end of the \<open>if (exists) ... else ...\<close> statement: it looks up the
  list, the template and the contact, creates and attaches the contact where needed, and
  leaves the state variables for the branching that follows.
\<close>

definition resolveState ::
  "env \<Rightarrow> jsval \<Rightarrow> jsval \<Rightarrow> state \<Rightarrow> flags outcome \<times> state" where
  "resolveState e emailAddr listName s =
     (let (allLists, s1) = getAllContactLists e s;
          ld = (case filter (\<lambda>l. strict_eq (list_name l) listName) allLists of
                  [] \<Rightarrow> None
                | l # _ \<Rightarrow> Some l);
          (emailTemplates, s2) = getTemplates e s1
      in
       (case filter (\<lambda>t. strict_eq (template_name t) (Str (toString listName @ ''-confirmation'')))
               emailTemplates of
          [] \<Rightarrow>
            (Returns (JsonResponse (''Error sending confirmation email to '' @ [CHR 0x27]
                        @ toString emailAddr @ [CHR 0x27] @ '' for list '' @ [CHR 0x27]
                        @ toString listName @ [CHR 0x27]) 500 None), s2)
        | tpl # _ \<Rightarrow>
            (let ((cid, exists), s3) = getContact e emailAddr s2 in
             if exists then
               (let (contactLists, s4) = getContactLists e emailAddr s3 in
                (case filter_memberships ld contactLists of
                   Inl err \<Rightarrow> (Throws err, s4)
                 | Inr (contactList # _) \<Rightarrow>
                     (Continues \<lparr>onList = True, alreadySubscribed = subscribed contactList,
                                 contactExists = True, contactId = cid, listDetails = ld,
                                 emailTemplate = tpl\<rparr>, s4)
                 | Inr [] \<Rightarrow>
                     (case ld of
                        None \<Rightarrow> (Throws (cannot_read Undefined ''id''), s4)
                      | Some l \<Rightarrow>
                          (let (r, s5) = addContactToList e (list_id l) emailAddr s4 in
                           (Continues \<lparr>onList = addedToList r, alreadySubscribed = False,
                                       contactExists = True, contactId = cid, listDetails = ld,
                                       emailTemplate = tpl\<rparr>, s5)))))
             else
               (let (contactAdded, s4) = addContact e emailAddr s3 in
                if contactAdded then
                  (case ld of
                     None \<Rightarrow> (Throws (cannot_read Undefined ''id''), s4)
                   | Some l \<Rightarrow>
                       (let (r, s5) = addContactToList e (list_id l) emailAddr s4 in
                        (case attach_error r of
                           Some err \<Rightarrow>
                             (Returns (JsonResponse (''An error occurred while adding ''
                                         @ toString emailAddr @ '' to list '' @ toString listName
                                         @ '': '' @ message err) 500 None), s5)
                         | None \<Rightarrow>
                             (Continues \<lparr>onList = addedToList r, alreadySubscribed = False,
                                         contactExists = True, contactId = cid, listDetails = ld,
                                         emailTemplate = tpl\<rparr>, s5))))
                else
                  (Continues \<lparr>onList = False, alreadySubscribed = False, contactExists = False,
                              contactId = cid, listDetails = ld, emailTemplate = tpl\<rparr>, s4)))))"

text \<open>The payload of a redirect: \<open>btoa(encodeURIComponent(...))\<close>.\<close>

definition redirect_info :: "jsval \<Rightarrow> jsval \<Rightarrow> string" where
  "redirect_info emailAddr listName =
     ''emailAddr='' @ toString emailAddr @ ''&listName='' @ toString listName"

definition encodedInfo :: "string \<Rightarrow> js_error + string" where
  "encodedInfo info = btoa (encodeURIComponent info)"

definition default_response :: "jsval \<Rightarrow> jsval \<Rightarrow> string" where
  "default_response emailAddr listName =
     ''An error occurred while attempting to add '' @ [CHR 0x27] @ toString emailAddr
     @ [CHR 0x27] @ '' to list '' @ [CHR 0x27] @ toString listName @ [CHR 0x27]"

text \<open>
  \<open>dispatch\<close> is the rest of \<open>handleRequest\<close>: the two \<open>if\<close> statements on \<open>onList\<close> and
  \<open>alreadySubscribed\<close> and the final response.
\<close>

definition dispatch ::
  "env \<Rightarrow> jsval \<Rightarrow> jsval \<Rightarrow> jsval \<Rightarrow> flags \<Rightarrow> state \<Rightarrow> (js_error + worker_response) \<times> state" where
  "dispatch e action emailAddr listName fl s =
     (let fallthrough = (Inr (JsonResponse (default_response emailAddr listName) 500
                               (Some json_headers)), s) in
      if onList fl \<and> alreadySubscribed fl then
        (if strict_eq action (Str ''add'') then
           (Inr (JsonResponse (toString emailAddr @ '' is already subscribed to contact list ''
                   @ [CHR 0x27] @ toString listName @ [CHR 0x27]) 409 (Some json_headers)), s)
         else if strict_eq action (Str ''subscribe'') then
           (case encodedInfo (redirect_info emailAddr listName) of
              Inl err \<Rightarrow> (Inl err, s)
            | Inr info \<Rightarrow> (Inr (Redirect (''https://48ix.net/subscribe?'' @ info) 301), s))
         else fallthrough)
      else if onList fl \<and> \<not> alreadySubscribed fl then
        (if strict_eq action (Str ''add'') then
           (case sendEmail e emailAddr (template_id (emailTemplate fl)) listName s of
              ((confirmationSent, confirmationError), s') \<Rightarrow>
                (case confirmationError of
                   Some err \<Rightarrow>
                     if err \<noteq> [] then (Inr (JsonResponse err 500 (Some json_headers)), s')
                     else if confirmationSent then
                       (Inr (JsonResponse (''A confirmation email has been sent to '' @ [CHR 0x27]
                               @ toString emailAddr @ [CHR 0x27]) 200 (Some json_headers)), s')
                     else (Inr (JsonResponse (default_response emailAddr listName) 500
                                 (Some json_headers)), s')
                 | None \<Rightarrow>
                     if confirmationSent then
                       (Inr (JsonResponse (''A confirmation email has been sent to '' @ [CHR 0x27]
                               @ toString emailAddr @ [CHR 0x27]) 200 (Some json_headers)), s')
                     else (Inr (JsonResponse (default_response emailAddr listName) 500
                                 (Some json_headers)), s')))
         else if strict_eq action (Str ''subscribe'') then
           (case listDetails fl of
              None \<Rightarrow> (Inl (cannot_read Undefined ''id''), s)
            | Some l \<Rightarrow>
                (case subscribeContact e (contactId fl) (list_id l) s of
                   (Inl err, s1) \<Rightarrow> (Inl err, s1)
                 | (Inr r, s1) \<Rightarrow>
                     (case encodedInfo (redirect_info emailAddr listName) of
                        Inl err \<Rightarrow> (Inl err, s1)
                      | Inr info \<Rightarrow>
                          if is_subscribed r then
                            (Inr (Redirect (''https://48ix.net/subscribe?'' @ info) 301),
                             notifySlack e emailAddr listName Undefined s1)
                          else
                            (case subscribe_error r of
                               None \<Rightarrow> (Inl (cannot_read Undefined ''message''), s1)
                             | Some error \<Rightarrow>
                                 (case encodedInfo (redirect_info emailAddr listName
                                                     @ ''&error='' @ message error) of
                                    Inl err \<Rightarrow> (Inl err, s1)
                                  | Inr info' \<Rightarrow>
                                      (Inr (Redirect (''https://48ix.net/subscribe/failure?'' @ info')
                                             301),
                                       notifySlack e emailAddr listName (Str (message error)) s1))))))
         else fallthrough)
      else fallthrough)"

definition handleRequest ::
  "env \<Rightarrow> string \<Rightarrow> state \<Rightarrow> (js_error + worker_response) \<times> state" where
  "handleRequest e search s =
     (let params = parseUrl search;
          action = param params ''action'';
          emailAddr = param params ''emailAddr'';
          listName = param params ''listName'';
          unused = required_check [action, emailAddr, listName]
      in case resolveState e emailAddr listName s of
           (Throws err, s') \<Rightarrow> (Inl err, s')
         | (Returns r, s') \<Rightarrow> (Inr r, s')
         | (Continues fl, s') \<Rightarrow> dispatch e action emailAddr listName fl s')"

subsection \<open>Reading a redirect back\<close>

text \<open>
  The query of a URL is what follows its first \<open>?\<close>, up to a \<open>#\<close>. The payload of a
  redirect is read back by decoding it as Base64 and then percent-decoding the result.
\<close>

definition query_string :: "string \<Rightarrow> string" where
  "query_string url =
     takeWhile (\<lambda>c. c \<noteq> CHR ''#'') (drop 1 (dropWhile (\<lambda>c. c \<noteq> CHR ''?'') url))"

definition decode_payload :: "string \<Rightarrow> string option" where
  "decode_payload q = (case base64_decode q of None \<Rightarrow> None | Some p \<Rightarrow> percent_decode p)"

subsection \<open>A sample account\<close>

text \<open>
  A MailJet account used to run the worker on concrete requests: two contact lists
  (\<open>public-announce\<close> and \<open>members\<close>), two confirmation templates (for
  \<open>public-announce\<close> and for a list \<open>ghost\<close> that does not exist), the contact
  \<open>a@b.c\<close>, whose memberships are, in this order, \<open>members\<close>, not subscribed, and
  \<open>public-announce\<close>, subscribed; no contact \<open>x@b.c\<close>, and one recipient record,
  which MailJet reports as already subscribed (304) when it is subscribed again. Any
  other request fails in the network.
\<close>

definition reply :: "nat \<Rightarrow> string \<Rightarrow> jsval \<Rightarrow> string \<Rightarrow> js_error + response" where
  "reply st reason v txt =
     Inr \<lparr>status = st, statusText = reason, body_json = Inr v, body_text = Inr txt\<rparr>"

definition sample_table :: "((http_method \<times> string) \<times> (js_error + response)) list" where
  \<open>sample_table =
     [((GET, MJ_CONTACTS_LIST),
         reply 200 ''OK''
           (Obj [(''Count'', Num 2),
                 (''Data'', Arr [Obj [(''ID'', Num 7), (''Name'', Str ''public-announce''), (''SubscriberCount'', Num 3)],
                                 Obj [(''ID'', Num 8), (''Name'', Str ''members''), (''SubscriberCount'', Num 0)]])])
           ''{"Count":2,"Data":[{"ID":7,"Name":"public-announce","SubscriberCount":3},{"ID":8,"Name":"members","SubscriberCount":0}]}''),
      ((GET, MJ_TEMPLATE),
         reply 200 ''OK''
           (Obj [(''Data'', Arr [Obj [(''ID'', Num 11), (''Name'', Str ''public-announce-confirmation'')],
                                 Obj [(''ID'', Num 12), (''Name'', Str ''ghost-confirmation'')]])])
           ''{"Data":[{"ID":11,"Name":"public-announce-confirmation"},{"ID":12,"Name":"ghost-confirmation"}]}''),
      ((GET, MJ_CONTACT @ ''/a@b.c''),
         reply 200 ''OK'' (Obj [(''Data'', Arr [Obj [(''ID'', Num 5)]])]) ''{"Data":[{"ID":5}]}''),
      ((GET, MJ_CONTACT @ ''/a@b.c/getcontactslists''),
         reply 200 ''OK''
           (Obj [(''Data'', Arr [Obj [(''ListID'', Num 8), (''IsUnsub'', Bool True)],
                                 Obj [(''ListID'', Num 7), (''IsUnsub'', Bool False)]])])
           ''{"Data":[{"ListID":8,"IsUnsub":true},{"ListID":7,"IsUnsub":false}]}''),
      ((GET, MJ_CONTACT @ ''/x@b.c''),
         reply 404 ''Not Found''
           (Obj [(''ErrorCode'', Str ''mj-0003''), (''ErrorMessage'', Str ''Object not found'')])
           ''{"ErrorCode":"mj-0003","ErrorMessage":"Object not found"}''),
      ((POST, MJ_CONTACT),
         reply 201 ''Created'' (Obj [(''Data'', Arr [Obj [(''ID'', Num 6)]])]) ''{"Data":[{"ID":6}]}''),
      ((POST, MJ_ADD_CONTACT),
         reply 201 ''Created'' (Obj [(''Data'', Arr [Obj [(''ID'', Num 9)]])]) ''{"Data":[{"ID":9}]}''),
      ((GET, MJ_LIST_RECIPIENT),
         reply 200 ''OK''
           (Obj [(''Data'', Arr [Obj [(''ID'', Num 9), (''ContactID'', Num 6), (''ListID'', Num 7)]])])
           ''{"Data":[{"ID":9,"ContactID":6,"ListID":7}]}''),
      ((PUT, MJ_LIST_RECIPIENT @ ''/9''),
         Inr \<lparr>status = 304, statusText = ''Not Modified'',
               body_json = Inl (SyntaxError ''Unexpected end of JSON input''), body_text = Inr []\<rparr>)]\<close>

definition sample_env :: env where
  "sample_env =
     \<lparr>MAILJET_USER = ''user'', MAILJET_PASS = ''pass'',
      SLACK_WEBHOOK_URL = ''https://hooks.slack.com/services/T/B/x'',
      remote = (\<lambda>history req.
        case map_of sample_table (req_method req, req_url req) of
          None \<Rightarrow> Inl (TypeError ''Network connection lost.'')
        | Some r \<Rightarrow> r)\<rparr>"

definition sample_state :: state where
  "sample_state =
     \<lparr>headers = [(''Authorization'', ''Basic dXNlcjpwYXNz''), (''Accept'', ''application/json'')],
      calls = []\<rparr>"


text \<open>Requests to the worker, by the search component of their URL, and what the
  handler makes of the answers of the sample account for \<open>a@b.c\<close> on
  \<open>public-announce\<close>: the list, its template and the two memberships.\<close>

definition members_request :: string where
  "members_request = ''?action=add&emailAddr=a%40b.c&listName=members''"

definition conflict_request :: string where
  "conflict_request = ''?action=add&emailAddr=a%40b.c&listName=public-announce''"

definition public_list :: contact_list where
  "public_list = \<lparr>list_id = Num 7, list_name = Str ''public-announce'', subscribers = Num 3\<rparr>"

definition public_template :: template where
  "public_template = \<lparr>template_id = Num 11, template_name = Str ''public-announce-confirmation''\<rparr>"

definition members_membership :: membership where
  "members_membership = \<lparr>member_list_id = Num 8, subscribed = False\<rparr>"

definition public_membership :: membership where
  "public_membership = \<lparr>member_list_id = Num 7, subscribed = True\<rparr>"

definition subscribe_request :: string where
  "subscribe_request = ''?action=subscribe&emailAddr=a%40b.c&listName=public-announce''"

definition ghost_request :: string where
  "ghost_request = ''?action=add&emailAddr=x%40b.c&listName=ghost''"

definition no_action_request :: string where
  "no_action_request = ''?emailAddr=x%40b.c&listName=public-announce''"

definition ghost_template :: template where
  "ghost_template = \<lparr>template_id = Num 12, template_name = Str ''ghost-confirmation''\<rparr>"

text \<open>
  Error responses: a MailJet error in JSON; a plain text body, and an empty body, without
  status text (as over HTTP/2); and a response with a status text whose body cannot be
  read.
\<close>

definition not_found_response :: response where
  \<open>not_found_response =
     \<lparr>status = 404, statusText = ''Not Found'',
      body_json = Inr (Obj [(''ErrorCode'', Str ''mj-0003''), (''ErrorMessage'', Str ''Object not found'')]),
      body_text = Inr ''{"ErrorCode":"mj-0003","ErrorMessage":"Object not found"}''\<rparr>\<close>

definition plain_text_response :: response where
  "plain_text_response =
     \<lparr>status = 503, statusText = [],
      body_json = Inl (SyntaxError ''Unexpected token S in JSON at position 0''),
      body_text = Inr ''Service Unavailable''\<rparr>"

definition empty_response :: response where
  "empty_response =
     \<lparr>status = 500, statusText = [],
      body_json = Inl (SyntaxError ''Unexpected end of JSON input''),
      body_text = Inr []\<rparr>"

definition broken_response :: response where
  "broken_response =
     \<lparr>status = 502, statusText = ''Bad Gateway'',
      body_json = Inl (TypeError ''Network connection lost.''),
      body_text = Inl (TypeError ''Network connection lost.'')\<rparr>"

section \<open>Properties\<close>

subsection \<open>Encoding and decoding\<close>

lemma latin1_ascii: "\<forall>c\<in>set s. (of_char c :: nat) < 128 \<Longrightarrow> latin1 s = Some s"
  by (induction s) (auto simp: Let_def)

lemma char_of_nat_eq: "n < 256 \<Longrightarrow> (char_of (n :: nat) = c) = (n = of_char c)"
  by (metis of_char_of char_of_char mod_less)

lemma hi_nibble: "(of_char c :: nat) div 16 < 16"
  using nat_of_char_less_256 [of c] by arith

lemma hex_char_ascii: "n < 16 \<Longrightarrow> (of_char (hex_char n) :: nat) < 128"
  by (simp add: hex_char_def)

lemma unreserved_ascii: "unreserved c \<Longrightarrow> (of_char c :: nat) < 128"
  by (auto simp: unreserved_def alnum_def Let_def)

lemma pct_ascii: "x \<in> set (pct c) \<Longrightarrow> (of_char x :: nat) < 128"
  by (auto simp: pct_def hex_char_ascii hi_nibble)

lemma encodeURIComponent_ascii: "\<forall>c\<in>set (encodeURIComponent s). (of_char c :: nat) < 128"
  by (auto simp: encodeURIComponent_def unreserved_ascii pct_ascii split: if_splits)

lemma btoa_encodeURIComponent:
  "btoa (encodeURIComponent s) = Inr (base64_encode (encodeURIComponent s))"
  by (simp add: btoa_def latin1_ascii encodeURIComponent_ascii)

lemma hex_val_hex_char: "n < 16 \<Longrightarrow> hex_val (hex_char n) = Some n"
  by (auto simp: hex_val_def hex_char_def Let_def)

lemma unreserved_not_percent: "unreserved c \<Longrightarrow> c \<noteq> CHR ''%''"
  by (auto simp: unreserved_def alnum_def Let_def)

lemma percent_decode_pct:
  "percent_decode (pct c @ rest) = map_option ((#) c) (percent_decode rest)"
  by (simp add: pct_def hex_val_hex_char hi_nibble)

lemma percent_roundtrip: "percent_decode (encodeURIComponent s) = Some s"
proof (induction s)
  case Nil
  then show ?case by (simp add: encodeURIComponent_def)
next
  case (Cons c s)
  then show ?case
    by (cases "unreserved c")
      (simp_all add: encodeURIComponent_def unreserved_not_percent percent_decode_pct)
qed

lemma b64val_b64chr: "n < 64 \<Longrightarrow> b64val (b64chr n) = Some n"
  by (auto simp: b64val_def b64chr_def Let_def)

lemma b64chr_not_pad: "n < 64 \<Longrightarrow> b64chr n \<noteq> CHR ''=''"
  by (auto simp: b64chr_def char_of_nat_eq)

lemma sextet_bounds:
  fixes x y z :: nat
  assumes "x < 256" "y < 256" "z < 256"
  shows "x div 4 < 64" "x mod 4 * 16 < 64" "x mod 4 * 16 + y div 16 < 64"
    "y mod 16 * 4 < 64" "y mod 16 * 4 + z div 64 < 64" "z mod 64 < 64"
  using assms by arith+

lemma byte_facts:
  fixes x :: nat
  assumes "x < 256"
  shows "x div 16 div 16 = 0" "x div 16 mod 16 * 16 + x mod 16 = x"
    "x div 64 div 4 = 0" "x div 64 mod 4 * 64 + x mod 64 = x"
proof -
  have a: "x div 16 < 16" "x div 64 < 4" using assms by simp_all
  show "x div 16 div 16 = 0" "x div 64 div 4 = 0" using a by simp_all
  show "x div 16 mod 16 * 16 + x mod 16 = x" "x div 64 mod 4 * 64 + x mod 64 = x"
    using a by simp_all
qed

lemma base64_roundtrip: "base64_decode (base64_encode s) = Some s"
proof (induction s rule: base64_encode.induct)
  case 1
  then show ?case by simp
next
  case (2 a)
  note b = sextet_bounds [OF nat_of_char_less_256 [of a] nat_of_char_less_256 [of a] nat_of_char_less_256 [of a]]
  show ?case
    by (simp add: Let_def b64val_b64chr b64chr_not_pad b)
next
  case (3 a b)
  note b = sextet_bounds [OF nat_of_char_less_256 [of a] nat_of_char_less_256 [of b] nat_of_char_less_256 [of b]]
  note w = byte_facts [OF nat_of_char_less_256 [of b]]
  show ?case
    by (simp add: Let_def b64val_b64chr b64chr_not_pad b w)
next
  case (4 a b c rest)
  note b = sextet_bounds [OF nat_of_char_less_256 [of a] nat_of_char_less_256 [of b] nat_of_char_less_256 [of c]]
  note w = byte_facts [OF nat_of_char_less_256 [of b]] byte_facts [OF nat_of_char_less_256 [of c]]
  show ?case
    using 4 by (simp add: Let_def b64val_b64chr b64chr_not_pad b w)
qed


subsection \<open>What each operation sends and what it does to the header object\<close>

lemma Client_get_state:
  "snd (Client_get e url s) = s\<lparr>calls := calls s @ [get_request url s]\<rparr>"
  by (simp add: Client_get_def fetch_def get_request_def Let_def split: sum.splits)

lemma Client_post_state:
  "snd (Client_post e url data s) =
     \<lparr>headers = headers s @ [(''Content-Type'', ''application/json'')],
      calls = calls s @ [post_request url data s]\<rparr>"
  by (simp add: Client_post_def fetch_def post_request_def Let_def split: sum.splits)

lemma Client_put_state:
  "snd (Client_put e url data s) =
     \<lparr>headers = headers s @ [(''Content-Type'', ''application/json'')],
      calls = calls s @ [put_request url data s]\<rparr>"
  by (simp add: Client_put_def fetch_def put_request_def Let_def split: sum.splits)

lemma Client_put_ok: "Client_put e url data s = (Inr response, s') \<Longrightarrow> ok response"
  by (auto simp: Client_put_def Let_def split: prod.splits sum.splits if_splits)

lemma getAllContactLists_state:
  "snd (getAllContactLists e s) = snd (Client_get e MJ_CONTACTS_LIST s)"
  by (simp add: getAllContactLists_def split: prod.splits sum.splits jsval.splits)

lemma getTemplates_state: "snd (getTemplates e s) = snd (Client_get e MJ_TEMPLATE s)"
  by (simp add: getTemplates_def split: prod.splits sum.splits jsval.splits)

lemma getContact_state:
  "snd (getContact e emailAddr s) = snd (Client_get e (MJ_CONTACT @ ''/'' @ toString emailAddr) s)"
  by (simp add: getContact_def split: prod.splits sum.splits)

lemma getContactLists_state:
  "snd (getContactLists e emailAddr s) =
     snd (Client_get e (MJ_CONTACT @ ''/'' @ toString emailAddr @ ''/getcontactslists'') s)"
  by (simp add: getContactLists_def split: prod.splits sum.splits jsval.splits)

lemma getRecipient_returns: "\<exists>v. fst (getRecipient e cid lid s) = Inr v"
  by (simp add: getRecipient_def split: prod.splits sum.splits)

lemma subscribeContact_returns: "\<exists>r. fst (subscribeContact e cid lid s) = Inr r"
  using getRecipient_returns [of e cid lid s]
  by (auto simp: subscribeContact_def split: prod.splits sum.splits)

lemma encodedInfo_eq: "encodedInfo info = Inr (base64_encode (encodeURIComponent info))"
  by (simp add: encodedInfo_def btoa_encodeURIComponent)

lemma resolveState_Throws:
  "resolveState e emailAddr listName s = (Throws err, s') \<Longrightarrow> err = cannot_read Undefined ''id''"
  by (auto simp: resolveState_def filter_memberships_def Let_def
      split: prod.splits list.splits sum.splits option.splits if_splits)

lemma subscribe_error_defined:
  "subscribeContact e cid lid s = (Inr r, s') \<Longrightarrow> \<not> is_subscribed r \<Longrightarrow> subscribe_error r \<noteq> None"
  by (auto simp: subscribeContact_def split: prod.splits sum.splits dest: Client_put_ok)

lemma subscribeContact_not_Inl: "subscribeContact e cid lid s = (Inl err, s') \<Longrightarrow> False"
  using subscribeContact_returns [of e cid lid s] by simp

lemma dispatch_Throws:
  "dispatch e action emailAddr listName fl s = (Inl err, s') \<Longrightarrow> err = cannot_read Undefined ''id''"
  by (auto simp: dispatch_def Let_def encodedInfo_eq
      split: prod.splits list.splits sum.splits option.splits if_splits
      dest: subscribe_error_defined subscribeContact_not_Inl)

lemma handleRequest_Throws:
  "handleRequest e search s = (Inl err, s') \<Longrightarrow> err = cannot_read Undefined ''id''"
  by (auto simp: handleRequest_def Let_def split: prod.splits outcome.splits
      dest: resolveState_Throws dispatch_Throws)

subsection \<open>The failure branch of a subscription\<close>

text \<open>
  C10. Whenever \<open>subscribeContact\<close> returns with \<open>subscribed\<close> false, its \<open>error\<close> is
  defined: \<open>put\<close> either throws, and the exception is caught into \<open>error\<close>, or returns a
  response that is \<open>ok\<close>, and then \<open>subscribed\<close> is true. So the failure branch of the
  handler, which reads \<open>error.message\<close> without a check, never reads it of \<open>undefined\<close>:
  the handler never throws the \<open>TypeError\<close> of that read.
\<close>

theorem subscribe_failure_has_error:
  "(\<forall>r s'. subscribeContact e cid lid s = (Inr r, s') \<and> \<not> is_subscribed r
       \<longrightarrow> subscribe_error r \<noteq> None)
   \<and> fst (handleRequest e search s) \<noteq> Inl (cannot_read Undefined ''message'')"
proof
  show "\<forall>r s'. subscribeContact e cid lid s = (Inr r, s') \<and> \<not> is_subscribed r
       \<longrightarrow> subscribe_error r \<noteq> None"
    using subscribe_error_defined by blast
next
  show "fst (handleRequest e search s) \<noteq> Inl (cannot_read Undefined ''message'')"
  proof
    assume "fst (handleRequest e search s) = Inl (cannot_read Undefined ''message'')"
    then have "handleRequest e search s
        = (Inl (cannot_read Undefined ''message''), snd (handleRequest e search s))"
      by (metis prod.collapse)
    then have "cannot_read Undefined ''message'' = cannot_read Undefined ''id''"
      by (rule handleRequest_Throws)
    then show False by (simp add: cannot_read_def)
  qed
qed

text \<open>On the sample account, subscribing the recipient again fails, with an error.\<close>

theorem subscribe_failure_has_error_witness:
  "\<exists>r s'. subscribeContact sample_env (Num 6) (Num 7) sample_state = (Inr r, s')
      \<and> \<not> is_subscribed r \<and> subscribe_error r \<noteq> None"
proof -
  obtain r s' where run: "subscribeContact sample_env (Num 6) (Num 7) sample_state = (Inr r, s')"
    using subscribeContact_returns [of sample_env "Num 6" "Num 7" sample_state]
    by (metis prod.collapse)
  have "fst (subscribeContact sample_env (Num 6) (Num 7) sample_state)
     = Inr \<lparr>is_subscribed = False, subscribe_error = Some (MailingListError ''Not Modified'')\<rparr>"
    by code_simp
  with run have no: "\<not> is_subscribed r" by simp
  from subscribe_failure_has_error [of sample_env "Num 6" "Num 7" sample_state] run no
  have "subscribe_error r \<noteq> None" by blast
  with run no show ?thesis by blast
qed

subsection \<open>A 304 answer to the \<open>PUT\<close> of \<open>subscribeContact\<close>\<close>

text \<open>
  C2. In the specification, a 304 answer to the \<open>PUT\<close> that clears the unsubscribed flag
  counts as success. \<open>subscribeContact\<close> tests \<open>response.ok || response.status === 304\<close>, but
  \<open>put\<close> throws a \<open>MailingListError\<close> for every response that is not \<open>ok\<close>, and a 304
  is not: on the sample account, where MailJet answers 304, \<open>subscribeContact\<close> returns
  \<open>subscribed\<close> false and the error.
\<close>

theorem subscribeContact_rejects_304:
  "remote sample_env [get_request MJ_LIST_RECIPIENT sample_state]
      (put_request (MJ_LIST_RECIPIENT @ ''/9'') (Obj [(''IsUnsubscribed'', Bool False)]) sample_state)
     = Inr \<lparr>status = 304, statusText = ''Not Modified'',
             body_json = Inl (SyntaxError ''Unexpected end of JSON input''), body_text = Inr []\<rparr>
   \<and> fst (subscribeContact sample_env (Num 6) (Num 7) sample_state)
     = Inr \<lparr>is_subscribed = False, subscribe_error = Some (MailingListError ''Not Modified'')\<rparr>"
  by code_simp

subsection \<open>A recipient that is not found\<close>

text \<open>
  C3. In the specification, \<open>getRecipient\<close> fails with an error that reaches its caller
  when no entry of the listing matches. The \<open>throw\<close> is inside the function's own \<open>try\<close> block:
  on the sample account, where no recipient record is of contact 5, the body of the
  \<open>try\<close> block throws "Contact not found.", and \<open>getRecipient\<close> returns \<open>undefined\<close>.
\<close>

theorem getRecipient_swallows_not_found:
  "(case remote sample_env [] (get_request MJ_LIST_RECIPIENT sample_state) of
      Inl err \<Rightarrow> False
    | Inr r \<Rightarrow> getRecipient_try (Num 5) (Num 7) r = Inl (Error ''Contact not found.''))
   \<and> fst (getRecipient sample_env (Num 5) (Num 7) sample_state) = Inr Undefined"
  by code_simp

subsection \<open>A missing confirmation template\<close>

lemma get_request_calls [simp]: "get_request url (s\<lparr>calls := c\<rparr>) = get_request url s"
  by (simp add: get_request_def)

text \<open>
  C7. When no template of MailJet is named \<open>{listName}-confirmation\<close>, the handler answers
  500, whatever the action (and whatever else the request holds), and the two lookups,
  of the contact lists and of the templates, are the only requests it sends: the state
  it ends in is the one it started in with these two requests added.
\<close>

theorem missing_template_fails_fast:
  assumes "getAllContactLists e s = (allLists, s1)"
    and "getTemplates e s1 = (emailTemplates, s2)"
    and "filter (\<lambda>t. strict_eq (template_name t)
                   (Str (toString (param (parseUrl search) ''listName'') @ ''-confirmation'')))
           emailTemplates = []"
  shows "handleRequest e search s =
           (Inr (JsonResponse (''Error sending confirmation email to '' @ [CHR 0x27]
                   @ toString (param (parseUrl search) ''emailAddr'') @ [CHR 0x27]
                   @ '' for list '' @ [CHR 0x27]
                   @ toString (param (parseUrl search) ''listName'') @ [CHR 0x27]) 500 None), s2)
         \<and> s2 = s\<lparr>calls := calls s @ [get_request MJ_CONTACTS_LIST s, get_request MJ_TEMPLATE s]\<rparr>"
proof
  show "handleRequest e search s =
           (Inr (JsonResponse (''Error sending confirmation email to '' @ [CHR 0x27]
                   @ toString (param (parseUrl search) ''emailAddr'') @ [CHR 0x27]
                   @ '' for list '' @ [CHR 0x27]
                   @ toString (param (parseUrl search) ''listName'') @ [CHR 0x27]) 500 None), s2)"
    using assms by (simp add: handleRequest_def resolveState_def Let_def)
next
  have "s1 = snd (getAllContactLists e s)" "s2 = snd (getTemplates e s1)"
    using assms by simp_all
  then show "s2 = s\<lparr>calls := calls s @ [get_request MJ_CONTACTS_LIST s, get_request MJ_TEMPLATE s]\<rparr>"
    by (simp add: getAllContactLists_state getTemplates_state Client_get_state)
qed

text \<open>On the sample account, the list \<open>members\<close> exists and has no confirmation template.\<close>

theorem missing_template_fails_fast_witness:
  "handleRequest sample_env members_request sample_state =
     (Inr (JsonResponse (''Error sending confirmation email to '' @ [CHR 0x27] @ ''a@b.c''
             @ [CHR 0x27] @ '' for list '' @ [CHR 0x27] @ ''members'' @ [CHR 0x27]) 500 None),
      sample_state\<lparr>calls := [get_request MJ_CONTACTS_LIST sample_state,
                              get_request MJ_TEMPLATE sample_state]\<rparr>)"
proof -
  have p: "param (parseUrl members_request) ''emailAddr'' = Str ''a@b.c''"
    "param (parseUrl members_request) ''listName'' = Str ''members''"
    by code_simp+
  have t: "filter (\<lambda>t. strict_eq (template_name t)
                 (Str (toString (param (parseUrl members_request) ''listName'') @ ''-confirmation'')))
            (fst (getTemplates sample_env (snd (getAllContactLists sample_env sample_state)))) = []"
    by code_simp
  have c: "calls sample_state = []" by (simp add: sample_state_def)
  from missing_template_fails_fast [OF prod.collapse [symmetric] prod.collapse [symmetric] t]
  show ?thesis by (simp add: p c)
qed

subsection \<open>A contact that is already subscribed\<close>

lemma resolveState_member:
  assumes "getAllContactLists e s = (allLists, s1)"
    and "filter (\<lambda>l. strict_eq (list_name l) listName) allLists = l # ls"
    and "getTemplates e s1 = (emailTemplates, s2)"
    and "filter (\<lambda>t. strict_eq (template_name t) (Str (toString listName @ ''-confirmation'')))
           emailTemplates = tpl # others"
    and "getContact e emailAddr s2 = ((cid, True), s3)"
    and "getContactLists e emailAddr s3 = (contactLists, s4)"
    and "filter (\<lambda>m. strict_eq (list_id l) (member_list_id m)) contactLists = m # ms"
  shows "resolveState e emailAddr listName s =
           (Continues \<lparr>onList = True, alreadySubscribed = subscribed m, contactExists = True,
                        contactId = cid, listDetails = Some l, emailTemplate = tpl\<rparr>, s4)"
    and "s4 = s\<lparr>calls := calls s @
            [get_request MJ_CONTACTS_LIST s, get_request MJ_TEMPLATE s,
             get_request (MJ_CONTACT @ ''/'' @ toString emailAddr) s,
             get_request (MJ_CONTACT @ ''/'' @ toString emailAddr @ ''/getcontactslists'') s]\<rparr>"
proof -
  have ne: "contactLists \<noteq> []" using assms(7) by auto
  show "resolveState e emailAddr listName s =
           (Continues \<lparr>onList = True, alreadySubscribed = subscribed m, contactExists = True,
                        contactId = cid, listDetails = Some l, emailTemplate = tpl\<rparr>, s4)"
    using assms ne by (simp add: resolveState_def Let_def filter_memberships_def)
  have "s1 = snd (getAllContactLists e s)" "s2 = snd (getTemplates e s1)"
    "s3 = snd (getContact e emailAddr s2)" "s4 = snd (getContactLists e emailAddr s3)"
    using assms by simp_all
  then show "s4 = s\<lparr>calls := calls s @
            [get_request MJ_CONTACTS_LIST s, get_request MJ_TEMPLATE s,
             get_request (MJ_CONTACT @ ''/'' @ toString emailAddr) s,
             get_request (MJ_CONTACT @ ''/'' @ toString emailAddr @ ''/getcontactslists'') s]\<rparr>"
    by (simp add: getAllContactLists_state getTemplates_state getContact_state
        getContactLists_state Client_get_state)
qed

text \<open>
  C6. When the contact exists, the first of its memberships that is of the list named in
  the request is subscribed, the confirmation template of the list exists, and the
  action is \<open>add\<close>, the handler answers 409 with a message that holds the email address
  and the list name, and the four lookups (contact lists, templates, contact,
  memberships of the contact) are the only requests it has sent: no contact is created
  or attached, no subscription is finalized and no email is sent. (Without the template
  the handler answers 500 before it looks the contact up, see C7.)
\<close>

theorem already_subscribed_add_conflict:
  assumes "param (parseUrl search) ''action'' = Str ''add''"
    and "param (parseUrl search) ''emailAddr'' = emailAddr"
    and "param (parseUrl search) ''listName'' = listName"
    and "getAllContactLists e s = (allLists, s1)"
    and "filter (\<lambda>l. strict_eq (list_name l) listName) allLists = l # ls"
    and "getTemplates e s1 = (emailTemplates, s2)"
    and "filter (\<lambda>t. strict_eq (template_name t) (Str (toString listName @ ''-confirmation'')))
           emailTemplates = tpl # others"
    and "getContact e emailAddr s2 = ((cid, True), s3)"
    and "getContactLists e emailAddr s3 = (contactLists, s4)"
    and "filter (\<lambda>m. strict_eq (list_id l) (member_list_id m)) contactLists = m # ms"
    and "subscribed m"
  shows "handleRequest e search s =
           (Inr (JsonResponse (toString emailAddr @ '' is already subscribed to contact list ''
                   @ [CHR 0x27] @ toString listName @ [CHR 0x27])
                 409 (Some json_headers)),
            s\<lparr>calls := calls s @
              [get_request MJ_CONTACTS_LIST s, get_request MJ_TEMPLATE s,
               get_request (MJ_CONTACT @ ''/'' @ toString emailAddr) s,
               get_request (MJ_CONTACT @ ''/'' @ toString emailAddr @ ''/getcontactslists'') s]\<rparr>)"
proof -
  note r = resolveState_member [OF assms(4-10)]
  have "handleRequest e search s =
           (Inr (JsonResponse (toString emailAddr @ '' is already subscribed to contact list ''
                   @ [CHR 0x27] @ toString listName @ [CHR 0x27])
                 409 (Some json_headers)), s4)"
    using assms(1-3,11) r(1) by (simp add: handleRequest_def dispatch_def Let_def)
  with r(2) show ?thesis by simp
qed

text \<open>On the sample account, \<open>a@b.c\<close> is first a member of \<open>members\<close>, not subscribed, and
  then of \<open>public-announce\<close>, subscribed.\<close>

theorem already_subscribed_add_conflict_witness:
  "fst (getContactLists sample_env (Str ''a@b.c'')
         (snd (getContact sample_env (Str ''a@b.c'')
           (snd (getTemplates sample_env (snd (getAllContactLists sample_env sample_state)))))))
     = [members_membership, public_membership]
   \<and> handleRequest sample_env conflict_request sample_state =
     (Inr (JsonResponse (''a@b.c is already subscribed to contact list '' @ [CHR 0x27]
            @ ''public-announce'' @ [CHR 0x27]) 409 (Some json_headers)),
      sample_state\<lparr>calls :=
        [get_request MJ_CONTACTS_LIST sample_state, get_request MJ_TEMPLATE sample_state,
         get_request (MJ_CONTACT @ ''/a@b.c'') sample_state,
         get_request (MJ_CONTACT @ ''/a@b.c/getcontactslists'') sample_state]\<rparr>)"
proof -
  let ?s1 = "snd (getAllContactLists sample_env sample_state)"
  let ?s2 = "snd (getTemplates sample_env ?s1)"
  let ?s3 = "snd (getContact sample_env (Str ''a@b.c'') ?s2)"
  have p: "param (parseUrl conflict_request) ''action'' = Str ''add''"
    "param (parseUrl conflict_request) ''emailAddr'' = Str ''a@b.c''"
    "param (parseUrl conflict_request) ''listName'' = Str ''public-announce''"
    by code_simp+
  have l: "filter (\<lambda>l. strict_eq (list_name l) (Str ''public-announce''))
             (fst (getAllContactLists sample_env sample_state)) = public_list # []"
    by code_simp
  have t: "filter (\<lambda>t. strict_eq (template_name t)
                  (Str (toString (Str ''public-announce'') @ ''-confirmation'')))
             (fst (getTemplates sample_env ?s1)) = public_template # []"
    by code_simp
  have "fst (getContact sample_env (Str ''a@b.c'') ?s2) = (Num 5, True)"
    by code_simp
  then have c: "getContact sample_env (Str ''a@b.c'') ?s2 = ((Num 5, True), ?s3)"
    by (simp add: prod_eq_iff)
  have ms: "fst (getContactLists sample_env (Str ''a@b.c'') ?s3)
              = [members_membership, public_membership]"
    by code_simp
  have f: "filter (\<lambda>m. strict_eq (list_id public_list) (member_list_id m))
             (fst (getContactLists sample_env (Str ''a@b.c'') ?s3)) = public_membership # []"
    by (simp add: ms public_list_def members_membership_def public_membership_def)
  have sub: "subscribed public_membership" by (simp add: public_membership_def)
  have c0: "calls sample_state = []" by (simp add: sample_state_def)
  from already_subscribed_add_conflict
    [OF p prod.collapse [symmetric] l prod.collapse [symmetric] t c prod.collapse [symmetric] f sub]
  show ?thesis using ms by (simp add: c0)
qed

subsection \<open>The payload of a redirect\<close>

lemma payload_roundtrip: "decode_payload (base64_encode (encodeURIComponent info)) = Some info"
  by (simp add: decode_payload_def base64_roundtrip percent_roundtrip)

lemma b64chr_not_hash: "n < 64 \<Longrightarrow> CHR ''#'' \<noteq> b64chr n"
  by (auto simp: b64chr_def char_of_nat_eq dest: sym)

lemma base64_no_hash: "c \<in> set (base64_encode s) \<Longrightarrow> c \<noteq> CHR ''#''"
proof (induction s rule: base64_encode.induct)
  case 1
  then show ?case by simp
next
  case (2 a)
  note b = sextet_bounds [OF nat_of_char_less_256 [of a] nat_of_char_less_256 [of a] nat_of_char_less_256 [of a]]
  from 2 show ?case by (auto simp: Let_def b64chr_not_hash b)
next
  case (3 a b)
  note b = sextet_bounds [OF nat_of_char_less_256 [of a] nat_of_char_less_256 [of b] nat_of_char_less_256 [of b]]
  from 3 show ?case by (auto simp: Let_def b64chr_not_hash b)
next
  case (4 a b c rest)
  note b = sextet_bounds [OF nat_of_char_less_256 [of a] nat_of_char_less_256 [of b] nat_of_char_less_256 [of c]]
  from 4 show ?case by (auto simp: Let_def b64chr_not_hash b)
qed

lemma takeWhile_base64: "takeWhile (\<lambda>c. c \<noteq> CHR ''#'') (base64_encode s) = base64_encode s"
  by (simp add: base64_no_hash)

lemma query_string_success:
  "url = ''https://48ix.net/subscribe?'' @ base64_encode s \<Longrightarrow> query_string url = base64_encode s"
  by (simp add: query_string_def takeWhile_base64)

lemma query_string_failure:
  "url = ''https://48ix.net/subscribe/failure?'' @ base64_encode s \<Longrightarrow>
     query_string url = base64_encode s"
  by (simp add: query_string_def takeWhile_base64)

lemma resolveState_Returns:
  "resolveState e emailAddr listName s = (Returns r, s') \<Longrightarrow> \<exists>m st h. r = JsonResponse m st h"
  by (auto simp: resolveState_def Let_def
      split: prod.splits list.splits sum.splits option.splits if_splits)

lemma dispatch_Redirect:
  "dispatch e action emailAddr listName fl s = (Inr (Redirect url st), s') \<Longrightarrow>
     st = 301 \<and>
     (url = ''https://48ix.net/subscribe?''
              @ base64_encode (encodeURIComponent (redirect_info emailAddr listName))
      \<or> (\<exists>err. url = ''https://48ix.net/subscribe/failure?''
              @ base64_encode (encodeURIComponent
                  (redirect_info emailAddr listName @ ''&error='' @ message err))))"
  by (auto simp: dispatch_def Let_def encodedInfo_eq
      split: prod.splits sum.splits option.splits if_splits)

lemma handleRequest_Redirect:
  assumes "handleRequest e search s = (Inr (Redirect url st), s')"
  shows "st = 301 \<and>
     (url = ''https://48ix.net/subscribe?''
              @ base64_encode (encodeURIComponent
                  (redirect_info (param (parseUrl search) ''emailAddr'') (param (parseUrl search) ''listName'')))
      \<or> (\<exists>err. url = ''https://48ix.net/subscribe/failure?''
              @ base64_encode (encodeURIComponent
                  (redirect_info (param (parseUrl search) ''emailAddr'') (param (parseUrl search) ''listName'')
                   @ ''&error='' @ message err))))"
proof -
  let ?em = "param (parseUrl search) ''emailAddr''" and ?ln = "param (parseUrl search) ''listName''"
  obtain out s1 where r: "resolveState e ?em ?ln s = (out, s1)" by force
  show ?thesis
  proof (cases out)
    case (Throws err)
    with assms r show ?thesis by (simp add: handleRequest_def Let_def)
  next
    case (Returns resp)
    with r resolveState_Returns [of e ?em ?ln s resp s1] assms show ?thesis
      by (auto simp: handleRequest_def Let_def)
  next
    case (Continues fl)
    with assms r have "dispatch e (param (parseUrl search) ''action'') ?em ?ln fl s1
        = (Inr (Redirect url st), s')"
      by (simp add: handleRequest_def Let_def)
    then show ?thesis by (rule dispatch_Redirect)
  qed
qed

text \<open>
  C5. When the contact exists, the first of its memberships that is of the list named in
  the request is subscribed, the confirmation template of the list exists, and the
  action is \<open>subscribe\<close>, the handler answers with a 301 redirect to
  \<open>https://48ix.net/subscribe?q\<close>, where \<open>q\<close> is the whole query of that URL and decodes
  (Base64, then percent-decoding) to exactly \<open>emailAddr={email}&listName={listName}\<close>.
  And every redirect the handler answers with has status 301, goes to the success or to
  the failure page, and has as its whole query \<open>btoa(encodeURIComponent(info))\<close>, where
  \<open>info\<close> is that string, followed by \<open>&error={message}\<close> on the failure page; decoding
  the query gives \<open>info\<close> back.
\<close>

theorem redirect_payload_roundtrip:
  assumes "param (parseUrl search) ''emailAddr'' = em"
    and "param (parseUrl search) ''listName'' = ln"
  shows "(param (parseUrl search) ''action'' = Str ''subscribe''
          \<and> getAllContactLists e s = (allLists, s1)
          \<and> filter (\<lambda>l. strict_eq (list_name l) ln) allLists = l # ls
          \<and> getTemplates e s1 = (emailTemplates, s2)
          \<and> filter (\<lambda>t. strict_eq (template_name t) (Str (toString ln @ ''-confirmation'')))
                emailTemplates = tpl # others
          \<and> getContact e em s2 = ((cid, True), s3)
          \<and> getContactLists e em s3 = (contactLists, s4)
          \<and> filter (\<lambda>m. strict_eq (list_id l) (member_list_id m)) contactLists = m # ms
          \<and> subscribed m
          \<longrightarrow> (\<exists>q. handleRequest e search s
                       = (Inr (Redirect (''https://48ix.net/subscribe?'' @ q) 301), s4)
                  \<and> query_string (''https://48ix.net/subscribe?'' @ q) = q
                  \<and> decode_payload q = Some (''emailAddr='' @ toString em @ ''&listName='' @ toString ln)))
       \<and> (\<forall>url st s''. handleRequest e search s = (Inr (Redirect url st), s'')
          \<longrightarrow> st = 301
              \<and> (\<exists>info. encodedInfo info = Inr (query_string url)
                    \<and> decode_payload (query_string url) = Some info
                    \<and> (url = ''https://48ix.net/subscribe?'' @ query_string url
                           \<and> info = ''emailAddr='' @ toString em @ ''&listName='' @ toString ln
                        \<or> url = ''https://48ix.net/subscribe/failure?'' @ query_string url
                           \<and> (\<exists>err. info = ''emailAddr='' @ toString em @ ''&listName='' @ toString ln
                                            @ ''&error='' @ message err))))"
proof (intro conjI impI allI)
  assume h: "param (parseUrl search) ''action'' = Str ''subscribe''
          \<and> getAllContactLists e s = (allLists, s1)
          \<and> filter (\<lambda>l. strict_eq (list_name l) ln) allLists = l # ls
          \<and> getTemplates e s1 = (emailTemplates, s2)
          \<and> filter (\<lambda>t. strict_eq (template_name t) (Str (toString ln @ ''-confirmation'')))
                emailTemplates = tpl # others
          \<and> getContact e em s2 = ((cid, True), s3)
          \<and> getContactLists e em s3 = (contactLists, s4)
          \<and> filter (\<lambda>m. strict_eq (list_id l) (member_list_id m)) contactLists = m # ms
          \<and> subscribed m"
  let ?q = "base64_encode (encodeURIComponent (redirect_info em ln))"
  have r: "resolveState e em ln s =
           (Continues \<lparr>onList = True, alreadySubscribed = subscribed m, contactExists = True,
                        contactId = cid, listDetails = Some l, emailTemplate = tpl\<rparr>, s4)"
    using h by (elim conjE) (rule resolveState_member(1); assumption)
  have "handleRequest e search s = (Inr (Redirect (''https://48ix.net/subscribe?'' @ ?q) 301), s4)"
    using h r assms by (simp add: handleRequest_def dispatch_def Let_def encodedInfo_eq)
  moreover have "query_string (''https://48ix.net/subscribe?'' @ ?q) = ?q"
    by (rule query_string_success) (rule refl)
  moreover have "decode_payload ?q = Some (''emailAddr='' @ toString em @ ''&listName='' @ toString ln)"
    by (simp add: payload_roundtrip redirect_info_def)
  ultimately show "\<exists>q. handleRequest e search s
                       = (Inr (Redirect (''https://48ix.net/subscribe?'' @ q) 301), s4)
                  \<and> query_string (''https://48ix.net/subscribe?'' @ q) = q
                  \<and> decode_payload q = Some (''emailAddr='' @ toString em @ ''&listName='' @ toString ln)"
    by blast
next
  fix url st s''
  assume "handleRequest e search s = (Inr (Redirect url st), s'')"
  from handleRequest_Redirect [OF this] show "st = 301" by simp
next
  fix url st s''
  assume "handleRequest e search s = (Inr (Redirect url st), s'')"
  from handleRequest_Redirect [OF this] assms
  consider (ok) "url = ''https://48ix.net/subscribe?'' @ base64_encode (encodeURIComponent (redirect_info em ln))"
    | (failure) err where "url = ''https://48ix.net/subscribe/failure?''
              @ base64_encode (encodeURIComponent (redirect_info em ln @ ''&error='' @ message err))"
    by auto
  then show "\<exists>info. encodedInfo info = Inr (query_string url)
                    \<and> decode_payload (query_string url) = Some info
                    \<and> (url = ''https://48ix.net/subscribe?'' @ query_string url
                           \<and> info = ''emailAddr='' @ toString em @ ''&listName='' @ toString ln
                        \<or> url = ''https://48ix.net/subscribe/failure?'' @ query_string url
                           \<and> (\<exists>err. info = ''emailAddr='' @ toString em @ ''&listName='' @ toString ln
                                            @ ''&error='' @ message err))"
  proof cases
    case ok
    note q = query_string_success [OF ok]
    show ?thesis
    proof (intro exI conjI)
      show "encodedInfo (redirect_info em ln) = Inr (query_string url)"
        by (simp add: q encodedInfo_eq)
      show "decode_payload (query_string url) = Some (redirect_info em ln)"
        by (simp add: q payload_roundtrip)
      show "url = ''https://48ix.net/subscribe?'' @ query_string url
              \<and> redirect_info em ln = ''emailAddr='' @ toString em @ ''&listName='' @ toString ln
            \<or> url = ''https://48ix.net/subscribe/failure?'' @ query_string url
              \<and> (\<exists>err. redirect_info em ln = ''emailAddr='' @ toString em @ ''&listName='' @ toString ln
                                            @ ''&error='' @ message err)"
        unfolding q using ok by (simp add: redirect_info_def)
    qed
  next
    case failure
    note q = query_string_failure [OF failure]
    show ?thesis
    proof (intro exI conjI)
      show "encodedInfo (redirect_info em ln @ ''&error='' @ message err) = Inr (query_string url)"
        by (simp add: q encodedInfo_eq)
      show "decode_payload (query_string url) = Some (redirect_info em ln @ ''&error='' @ message err)"
        by (simp add: q payload_roundtrip)
      have "\<exists>err'. redirect_info em ln @ ''&error='' @ message err
               = ''emailAddr='' @ toString em @ ''&listName='' @ toString ln @ ''&error='' @ message err'"
        by (rule exI [of _ err]) (simp add: redirect_info_def)
      then show "url = ''https://48ix.net/subscribe?'' @ query_string url
              \<and> redirect_info em ln @ ''&error='' @ message err
                  = ''emailAddr='' @ toString em @ ''&listName='' @ toString ln
            \<or> url = ''https://48ix.net/subscribe/failure?'' @ query_string url
              \<and> (\<exists>err'. redirect_info em ln @ ''&error='' @ message err
                     = ''emailAddr='' @ toString em @ ''&listName='' @ toString ln
                                            @ ''&error='' @ message err')"
        unfolding q using failure by simp
    qed
  qed
qed


text \<open>On the sample account, where the membership of \<open>public-announce\<close> is the second
  one of \<open>a@b.c\<close>.\<close>

theorem redirect_payload_roundtrip_witness:
  "\<exists>q. fst (handleRequest sample_env subscribe_request sample_state)
            = Inr (Redirect (''https://48ix.net/subscribe?'' @ q) 301)
      \<and> decode_payload q = Some ''emailAddr=a@b.c&listName=public-announce''
      \<and> map req_method (calls (snd (handleRequest sample_env subscribe_request sample_state)))
          = [GET, GET, GET, GET]"
proof -
  let ?s1 = "snd (getAllContactLists sample_env sample_state)"
  let ?s2 = "snd (getTemplates sample_env ?s1)"
  let ?s3 = "snd (getContact sample_env (Str ''a@b.c'') ?s2)"
  let ?s4 = "snd (getContactLists sample_env (Str ''a@b.c'') ?s3)"
  have p: "param (parseUrl subscribe_request) ''action'' = Str ''subscribe''"
    "param (parseUrl subscribe_request) ''emailAddr'' = Str ''a@b.c''"
    "param (parseUrl subscribe_request) ''listName'' = Str ''public-announce''"
    by code_simp+
  have l: "filter (\<lambda>l. strict_eq (list_name l) (Str ''public-announce''))
             (fst (getAllContactLists sample_env sample_state)) = public_list # []"
    by code_simp
  have t: "filter (\<lambda>t. strict_eq (template_name t)
                  (Str (toString (Str ''public-announce'') @ ''-confirmation'')))
             (fst (getTemplates sample_env ?s1)) = public_template # []"
    by code_simp
  have "fst (getContact sample_env (Str ''a@b.c'') ?s2) = (Num 5, True)"
    by code_simp
  then have c: "getContact sample_env (Str ''a@b.c'') ?s2 = ((Num 5, True), ?s3)"
    by (simp add: prod_eq_iff)
  have ms: "fst (getContactLists sample_env (Str ''a@b.c'') ?s3)
              = [members_membership, public_membership]"
    by code_simp
  have f: "filter (\<lambda>m. strict_eq (list_id public_list) (member_list_id m))
             (fst (getContactLists sample_env (Str ''a@b.c'') ?s3)) = public_membership # []"
    by (simp add: ms public_list_def members_membership_def public_membership_def)
  have sub: "subscribed public_membership" by (simp add: public_membership_def)
  have m: "map req_method (calls ?s4) = [GET, GET, GET, GET]"
    by code_simp
  have "param (parseUrl subscribe_request) ''action'' = Str ''subscribe''
          \<and> getAllContactLists sample_env sample_state
              = (fst (getAllContactLists sample_env sample_state), ?s1)
          \<and> filter (\<lambda>l. strict_eq (list_name l) (Str ''public-announce''))
                (fst (getAllContactLists sample_env sample_state)) = public_list # []
          \<and> getTemplates sample_env ?s1 = (fst (getTemplates sample_env ?s1), ?s2)
          \<and> filter (\<lambda>t. strict_eq (template_name t)
                       (Str (toString (Str ''public-announce'') @ ''-confirmation'')))
                (fst (getTemplates sample_env ?s1)) = public_template # []
          \<and> getContact sample_env (Str ''a@b.c'') ?s2 = ((Num 5, True), ?s3)
          \<and> getContactLists sample_env (Str ''a@b.c'') ?s3
              = (fst (getContactLists sample_env (Str ''a@b.c'') ?s3), ?s4)
          \<and> filter (\<lambda>m. strict_eq (list_id public_list) (member_list_id m))
                (fst (getContactLists sample_env (Str ''a@b.c'') ?s3)) = public_membership # []
          \<and> subscribed public_membership"
    using p(1) l t c f sub by simp
  with redirect_payload_roundtrip [OF p(2) p(3), THEN conjunct1, THEN mp]
  obtain q where "handleRequest sample_env subscribe_request sample_state
       = (Inr (Redirect (''https://48ix.net/subscribe?'' @ q) 301), ?s4)"
    and "decode_payload q
       = Some (''emailAddr='' @ toString (Str ''a@b.c'') @ ''&listName='' @ toString (Str ''public-announce''))"
    by blast
  then show ?thesis using m by (intro exI [of _ q]) simp
qed

subsection \<open>A list that does not exist\<close>

lemma resolveState_missing_list:
  assumes "getAllContactLists e s = (allLists, s1)"
    and "filter (\<lambda>l. strict_eq (list_name l) listName) allLists = []"
    and "getTemplates e s1 = (emailTemplates, s2)"
    and "filter (\<lambda>t. strict_eq (template_name t) (Str (toString listName @ ''-confirmation'')))
           emailTemplates = tpl # others"
    and "getContact e emailAddr s2 = ((cid, exists), s3)"
  shows "(\<exists>rest. calls (snd (resolveState e emailAddr listName s))
             = calls s2 @ get_request (MJ_CONTACT @ ''/'' @ toString emailAddr) s2 # rest)
       \<and> fst (resolveState e emailAddr listName s) =
           (if exists \<or> fst (addContact e emailAddr s3)
            then Throws (cannot_read Undefined ''id'')
            else Continues \<lparr>onList = False, alreadySubscribed = False, contactExists = False,
                             contactId = cid, listDetails = None, emailTemplate = tpl\<rparr>)
       \<and> (\<not> exists \<and> fst (addContact e emailAddr s3) \<longrightarrow>
            snd (resolveState e emailAddr listName s) = snd (addContact e emailAddr s3))"
proof (intro conjI)
  have s3: "s3 = s2\<lparr>calls := calls s2 @ [get_request (MJ_CONTACT @ ''/'' @ toString emailAddr) s2]\<rparr>"
    using assms(5) getContact_state [of e emailAddr s2] Client_get_state by simp
  show "\<exists>rest. calls (snd (resolveState e emailAddr listName s))
             = calls s2 @ get_request (MJ_CONTACT @ ''/'' @ toString emailAddr) s2 # rest"
  proof (cases exists)
    case True
    obtain ms s4 where d: "getContactLists e emailAddr s3 = (ms, s4)" by force
    then have "s4 = snd (getContactLists e emailAddr s3)" by simp
    then have s4: "calls s4 = calls s3 @ [get_request (MJ_CONTACT @ ''/'' @ toString emailAddr @ ''/getcontactslists'') s3]"
      by (simp add: getContactLists_state Client_get_state)
    have "snd (resolveState e emailAddr listName s) = s4"
      using assms True d
      by (auto simp: resolveState_def Let_def filter_memberships_def split: list.splits)
    then show ?thesis using s4 s3 by simp
  next
    case False
    obtain ad s4 where d: "addContact e emailAddr s3 = (ad, s4)" by force
    then have "s4 = snd (addContact e emailAddr s3)" by simp
    then have "s4 = snd (Client_post e MJ_CONTACT (Obj [(''Email'', emailAddr)]) s3)"
      by (simp add: addContact_def split: prod.splits sum.splits)
    then have s4: "calls s4 = calls s3 @ [post_request MJ_CONTACT (Obj [(''Email'', emailAddr)]) s3]"
      by (simp add: Client_post_state)
    have "snd (resolveState e emailAddr listName s) = s4"
      using assms False d
      by (auto simp: resolveState_def Let_def)
    then show ?thesis using s4 s3 by simp
  qed
next
  show "fst (resolveState e emailAddr listName s) =
           (if exists \<or> fst (addContact e emailAddr s3)
            then Throws (cannot_read Undefined ''id'')
            else Continues \<lparr>onList = False, alreadySubscribed = False, contactExists = False,
                             contactId = cid, listDetails = None, emailTemplate = tpl\<rparr>)"
    using assms
    by (auto simp: resolveState_def Let_def filter_memberships_def split: list.splits prod.splits)
next
  show "\<not> exists \<and> fst (addContact e emailAddr s3) \<longrightarrow>
            snd (resolveState e emailAddr listName s) = snd (addContact e emailAddr s3)"
    using assms
    by (auto simp: resolveState_def Let_def split: prod.splits)
qed

text \<open>
  C9. When no contact list has the name of the request and the confirmation template
  exists, the handler does not stop: \<open>listDetails\<close> is \<open>undefined\<close> and the lookup of
  the contact is sent next. From there, either the contact does not exist and cannot be
  created, the state variables are left with \<open>listDetails\<close> undefined and \<open>onList\<close>
  false, and the handler answers with its default message; or the handler reaches
  \<open>listDetails.id\<close> (in the filter of the memberships or in the argument of
  \<open>addContactToList\<close>) and throws the \<open>TypeError\<close> of reading \<open>id\<close> of \<open>undefined\<close>. In
  particular, once a new contact has been created, the handler throws where it would
  attach it to the list, and the creation is the last request it has sent.
\<close>

theorem missing_list_not_fail_fast:
  assumes "param (parseUrl search) ''emailAddr'' = emailAddr"
    and "param (parseUrl search) ''listName'' = listName"
    and "getAllContactLists e s = (allLists, s1)"
    and "filter (\<lambda>l. strict_eq (list_name l) listName) allLists = []"
    and "getTemplates e s1 = (emailTemplates, s2)"
    and "filter (\<lambda>t. strict_eq (template_name t) (Str (toString listName @ ''-confirmation'')))
           emailTemplates = tpl # others"
    and "getContact e emailAddr s2 = ((cid, exists), s3)"
  shows "(\<exists>rest. calls (snd (handleRequest e search s))
             = calls s2 @ get_request (MJ_CONTACT @ ''/'' @ toString emailAddr) s2 # rest)
       \<and> fst (resolveState e emailAddr listName s) =
           (if exists \<or> fst (addContact e emailAddr s3)
            then Throws (cannot_read Undefined ''id'')
            else Continues \<lparr>onList = False, alreadySubscribed = False, contactExists = False,
                             contactId = cid, listDetails = None, emailTemplate = tpl\<rparr>)
       \<and> fst (handleRequest e search s) =
           (if exists \<or> fst (addContact e emailAddr s3)
            then Inl (cannot_read Undefined ''id'')
            else Inr (JsonResponse (default_response emailAddr listName) 500 (Some json_headers)))
       \<and> (\<not> exists \<and> fst (addContact e emailAddr s3) \<longrightarrow>
            snd (handleRequest e search s) = snd (addContact e emailAddr s3))"
proof -
  note r = resolveState_missing_list [OF assms(3-7)]
  obtain out s' where run: "resolveState e emailAddr listName s = (out, s')" by force
  then have fs: "fst (resolveState e emailAddr listName s) = out"
    "snd (resolveState e emailAddr listName s) = s'" by simp_all
  have h: "handleRequest e search s =
      ((if exists \<or> fst (addContact e emailAddr s3)
        then Inl (cannot_read Undefined ''id'')
        else Inr (JsonResponse (default_response emailAddr listName) 500 (Some json_headers))), s')"
  proof (cases "exists \<or> fst (addContact e emailAddr s3)")
    case True
    with r fs have "out = Throws (cannot_read Undefined ''id'')" by simp
    with run True assms(1,2) show ?thesis by (simp add: handleRequest_def Let_def)
  next
    case False
    with r fs have "out = Continues \<lparr>onList = False, alreadySubscribed = False, contactExists = False,
                 contactId = cid, listDetails = None, emailTemplate = tpl\<rparr>" by simp
    with run False assms(1,2) show ?thesis by (simp add: handleRequest_def dispatch_def Let_def)
  qed
  show ?thesis using r h fs by simp
qed

text \<open>On the sample account there is a template \<open>ghost-confirmation\<close> and no list
  \<open>ghost\<close>; the contact \<open>x@b.c\<close> is created, and then the handler throws.\<close>

theorem missing_list_not_fail_fast_witness:
  "fst (handleRequest sample_env ghost_request sample_state)
     = Inl (TypeError (''Cannot read properties of undefined (reading '' @ [CHR 0x27] @ ''id''
                        @ [CHR 0x27] @ '')''))
   \<and> map req_method (calls (snd (handleRequest sample_env ghost_request sample_state)))
     = [GET, GET, GET, POST]"
proof -
  let ?s1 = "snd (getAllContactLists sample_env sample_state)"
  let ?s2 = "snd (getTemplates sample_env ?s1)"
  let ?s3 = "snd (getContact sample_env (Str ''x@b.c'') ?s2)"
  have p: "param (parseUrl ghost_request) ''emailAddr'' = Str ''x@b.c''"
    "param (parseUrl ghost_request) ''listName'' = Str ''ghost''"
    by code_simp+
  have l: "filter (\<lambda>l. strict_eq (list_name l) (Str ''ghost''))
             (fst (getAllContactLists sample_env sample_state)) = []"
    by code_simp
  have t: "filter (\<lambda>t. strict_eq (template_name t) (Str (toString (Str ''ghost'') @ ''-confirmation'')))
             (fst (getTemplates sample_env ?s1)) = ghost_template # []"
    by code_simp
  have "fst (getContact sample_env (Str ''x@b.c'') ?s2) = (Num 0, False)"
    by code_simp
  then have c: "getContact sample_env (Str ''x@b.c'') ?s2 = ((Num 0, False), ?s3)"
    by (simp add: prod_eq_iff)
  have a: "fst (addContact sample_env (Str ''x@b.c'') ?s3)"
    by code_simp
  have m: "map req_method (calls (snd (addContact sample_env (Str ''x@b.c'') ?s3))) = [GET, GET, GET, POST]"
    by code_simp
  from missing_list_not_fail_fast [OF p prod.collapse [symmetric] l prod.collapse [symmetric] t c]
  show ?thesis using a m by (simp add: cannot_read_def)
qed

subsection \<open>The detail of a client error\<close>

text \<open>
  C4. In the specification, the detail of an error is, in this order, the
  \<open>{code}: {message}\<close> of the JSON body, else the body as plain text, else "General
  Error". The code starts from the status text of the response, reads the body as text
  only while the detail is empty, and uses "General Error" only when the detail is still
  empty after that. So a response with a status text whose body cannot be read at all
  has its status text as detail, not "General Error".
\<close>

theorem clientError_status_text_counterexample:
  "isl (body_json broken_response) \<and> isl (body_text broken_response)
   \<and> clientError broken_response = ''Bad Gateway''
   \<and> clientError broken_response \<noteq> ''General Error''"
  by (simp add: broken_response_def clientError_def)

text \<open>
  C4, as the code has it. (1) When the body parses as JSON and the properties of the
  value can be read (it is not \<open>null\<close>), the detail is \<open>{ErrorCode}: {ErrorMessage}\<close>.
  Otherwise: (2) when the status text is empty, the detail is the body read as text, if
  the read succeeds with a text that is not empty, and (3) "General Error" if the read
  fails or the text is empty; (4) when the status text is not empty and the body cannot
  be read as text, the detail is the status text.
\<close>

theorem clientError_resolution:
  "(\<forall>j code msg. body_json r = Inr j \<and> get_prop j ''ErrorCode'' = Inr code
        \<and> get_prop j ''ErrorMessage'' = Inr msg
      \<longrightarrow> clientError r = toString code @ '': '' @ toString msg)
   \<and> ((\<forall>j. body_json r = Inr j \<longrightarrow> j = Null \<or> j = Undefined) \<longrightarrow>
        (statusText r = [] \<longrightarrow>
           clientError r = (case body_text r of
                              Inl err \<Rightarrow> ''General Error''
                            | Inr t \<Rightarrow> if t = [] then ''General Error'' else t))
        \<and> (statusText r \<noteq> [] \<and> isl (body_text r) \<longrightarrow> clientError r = statusText r))"
proof (intro conjI allI impI)
  fix j code msg
  assume "body_json r = Inr j \<and> get_prop j ''ErrorCode'' = Inr code
        \<and> get_prop j ''ErrorMessage'' = Inr msg"
  then show "clientError r = toString code @ '': '' @ toString msg"
    by (simp add: clientError_def)
next
  assume n: "\<forall>j. body_json r = Inr j \<longrightarrow> j = Null \<or> j = Undefined" and e: "statusText r = []"
  have "(case body_json r of Inl err \<Rightarrow> []
         | Inr jsonResponse \<Rightarrow>
             (case get_prop jsonResponse ''ErrorCode'' of Inl err \<Rightarrow> []
              | Inr code \<Rightarrow>
                  (case get_prop jsonResponse ''ErrorMessage'' of Inl err \<Rightarrow> []
                   | Inr msg \<Rightarrow> toString code @ '': '' @ toString msg))) = []"
    using n by (auto split: sum.splits)
  then show "clientError r = (case body_text r of
                              Inl err \<Rightarrow> ''General Error''
                            | Inr t \<Rightarrow> if t = [] then ''General Error'' else t)"
    using e by (simp add: clientError_def split: sum.splits)
next
  assume n: "\<forall>j. body_json r = Inr j \<longrightarrow> j = Null \<or> j = Undefined"
    and e: "statusText r \<noteq> [] \<and> isl (body_text r)"
  have "(case body_json r of Inl err \<Rightarrow> statusText r
         | Inr jsonResponse \<Rightarrow>
             (case get_prop jsonResponse ''ErrorCode'' of Inl err \<Rightarrow> statusText r
              | Inr code \<Rightarrow>
                  (case get_prop jsonResponse ''ErrorMessage'' of Inl err \<Rightarrow> statusText r
                   | Inr msg \<Rightarrow> toString code @ '': '' @ toString msg))) = statusText r"
    using n by (auto split: sum.splits)
  then show "clientError r = statusText r"
    using e by (simp add: clientError_def)
qed

theorem clientError_resolution_witness:
  "clientError not_found_response = ''mj-0003: Object not found''
   \<and> clientError plain_text_response = ''Service Unavailable''
   \<and> clientError empty_response = ''General Error''
   \<and> clientError broken_response = ''Bad Gateway''"
  using clientError_resolution [of not_found_response] clientError_resolution [of plain_text_response]
    clientError_resolution [of empty_response] clientError_resolution [of broken_response]
  by (simp add: not_found_response_def plain_text_response_def empty_response_def
      broken_response_def)

subsection \<open>The header object of the client\<close>

text \<open>
  C8. In the specification, no operation of the client changes the header object. \<open>post\<close>
  (and \<open>put\<close>) append a \<open>Content-Type\<close> entry to it before they send the request: after
  one \<open>post\<close> on the sample account the header object has three entries.
\<close>

theorem post_appends_header_counterexample:
  "headers (snd (Client_post sample_env MJ_CONTACT (Obj [(''Email'', Str ''x@b.c'')]) sample_state))
     = [(''Authorization'', ''Basic dXNlcjpwYXNz''), (''Accept'', ''application/json''),
        (''Content-Type'', ''application/json'')]
   \<and> headers (snd (Client_post sample_env MJ_CONTACT (Obj [(''Email'', Str ''x@b.c'')]) sample_state))
     \<noteq> headers sample_state"
  by (simp add: Client_post_state sample_state_def)

text \<open>
  C8, as the code has it. The constructor makes the header object with an
  \<open>Authorization\<close> and an \<open>Accept\<close> entry. Whatever the header object holds when an
  operation starts, \<open>get\<close> leaves it as it is, and \<open>post\<close> and \<open>put\<close> each append one
  entry \<open>Content-Type: application/json\<close> to it and change no entry it already has: the
  object grows with every \<open>post\<close> and \<open>put\<close>, and the credential entry is never changed.
\<close>

theorem client_headers:
  "(Client e = Inr h \<longrightarrow> map fst h = [''Authorization'', ''Accept''])
   \<and> headers (snd (Client_get e url s)) = headers s
   \<and> headers (snd (Client_post e url data s))
       = headers s @ [(''Content-Type'', ''application/json'')]
   \<and> headers (snd (Client_put e url data s))
       = headers s @ [(''Content-Type'', ''application/json'')]"
  by (auto simp: Client_def Client_get_state Client_post_state Client_put_state split: sum.splits)

text \<open>On the sample account: the constructor, and then a \<open>post\<close>, a \<open>put\<close> and a \<open>get\<close>
  in a row.\<close>

theorem client_headers_witness:
  "Client sample_env = Inr (headers sample_state)
   \<and> map fst (headers sample_state) = [''Authorization'', ''Accept'']
   \<and> headers (snd (Client_get sample_env MJ_TEMPLATE
        (snd (Client_put sample_env (MJ_LIST_RECIPIENT @ ''/9'') (Obj [(''IsUnsubscribed'', Bool False)])
          (snd (Client_post sample_env MJ_CONTACT (Obj [(''Email'', Str ''x@b.c'')]) sample_state))))))
       = headers sample_state
           @ [(''Content-Type'', ''application/json''), (''Content-Type'', ''application/json'')]"
proof -
  let ?s1 = "snd (Client_post sample_env MJ_CONTACT (Obj [(''Email'', Str ''x@b.c'')]) sample_state)"
  let ?s2 = "snd (Client_put sample_env (MJ_LIST_RECIPIENT @ ''/9'') (Obj [(''IsUnsubscribed'', Bool False)]) ?s1)"
  have c: "Client sample_env = Inr (headers sample_state)" by code_simp
  from client_headers [of sample_env "headers sample_state" MJ_CONTACT sample_state
      "Obj [(''Email'', Str ''x@b.c'')]"] c
  have a: "map fst (headers sample_state) = [''Authorization'', ''Accept'']"
    and b: "headers ?s1 = headers sample_state @ [(''Content-Type'', ''application/json'')]"
    by simp_all
  from client_headers [of sample_env _ "MJ_LIST_RECIPIENT @ ''/9''" ?s1
      "Obj [(''IsUnsubscribed'', Bool False)]"]
  have d: "headers ?s2 = headers ?s1 @ [(''Content-Type'', ''application/json'')]"
    by blast
  from client_headers [of sample_env _ MJ_TEMPLATE ?s2]
  have "headers (snd (Client_get sample_env MJ_TEMPLATE ?s2)) = headers ?s2"
    by blast
  with a b c d show ?thesis by simp
qed

subsection \<open>A request without a required parameter\<close>

text \<open>
  C1. In the specification, a request without \<open>action\<close>, \<open>emailAddr\<close> or \<open>listName\<close> is
  answered 500 "Unable to parse request." with no side effect. The response is built, for
  each missing parameter, inside the callback of \<open>map\<close>, whose \<open>return\<close> does not leave
  the handler. On the sample account, a request for \<open>x@b.c\<close> and \<open>public-announce\<close> with no
  \<open>action\<close> creates the contact and attaches it to the list, and is answered with the
  handler's default message.
\<close>

theorem missing_action_not_rejected:
  "param (parseUrl no_action_request) ''action'' = Undefined
   \<and> required_check [Undefined, Str ''x@b.c'', Str ''public-announce'']
       = [Some (JsonResponse ''Unable to parse request.'' 500 (Some json_headers)), None, None]
   \<and> fst (handleRequest sample_env no_action_request sample_state)
       = Inr (JsonResponse (''An error occurred while attempting to add '' @ [CHR 0x27] @ ''x@b.c''
                @ [CHR 0x27] @ '' to list '' @ [CHR 0x27] @ ''public-announce'' @ [CHR 0x27])
              500 (Some json_headers))
   \<and> map (\<lambda>r. (req_method r, req_url r)) (calls (snd (handleRequest sample_env no_action_request sample_state)))
       = [(GET, MJ_CONTACTS_LIST), (GET, MJ_TEMPLATE), (GET, MJ_CONTACT @ ''/x@b.c''),
          (POST, MJ_CONTACT), (POST, MJ_ADD_CONTACT)]"
  by code_simp


end
